theory Spec2Isabelle
  imports Main "HOL-Library.Sublist" "HOL-Library.List_Lexorder"
begin

section \<open>Text, values and exceptions\<close>

text \<open>
  A Python \<open>str\<close> is a sequence of Unicode code points, so text is a list of code
  points: \<open>len\<close>, \<open>in\<close>, \<open>split\<close> and slicing count code points. \<open>ascii\<close> writes an
  ASCII literal; the Chinese literals of the source are written out as code points.
  \<open>sub in s\<close> is \<open>sublist sub s\<close> and \<open>s.startswith(p)\<close> is \<open>prefix p s\<close>
  (HOL-Library.Sublist).
\<close>

type_synonym pystr = "nat list"

definition ascii :: "string \<Rightarrow> pystr" where
  "ascii s = map of_char s"

text \<open>
  The exceptions that occur, each with its \<open>str(e)\<close> where the source reads it.
  \<open>UnicodeEncodeError\<close>, pydantic's \<open>ValidationError\<close> and the JSON decode error are
  subclasses of \<open>ValueError\<close> in Python (the last one is a plain \<open>ValueError\<close> here):
  \<open>is_ValueError\<close> is the test an \<open>except ValueError\<close> clause makes.
  \<open>HTTPStatusError\<close> and \<open>RequestError\<close> are the two httpx classes the source names;
  \<open>HTTPException\<close> is FastAPI's, with its status code and the \<open>errcode\<close> and \<open>errmsg\<close>
  of its detail; \<open>OtherError\<close> is any other subclass of \<open>Exception\<close>.
\<close>

datatype exn =
    ValueError pystr
  | UnicodeEncodeError pystr
  | TypeError pystr
  | ValidationError pystr
  | HTTPStatusError nat pystr
  | RequestError pystr
  | HTTPException nat int pystr
  | OtherError pystr

fun exn_str :: "exn \<Rightarrow> pystr" where
  "exn_str (ValueError m) = m"
| "exn_str (UnicodeEncodeError m) = m"
| "exn_str (TypeError m) = m"
| "exn_str (ValidationError m) = m"
| "exn_str (HTTPStatusError st m) = m"
| "exn_str (RequestError m) = m"
| "exn_str (HTTPException st c m) = m"
| "exn_str (OtherError m) = m"

fun is_ValueError :: "exn \<Rightarrow> bool" where
  "is_ValueError (ValueError m) = True"
| "is_ValueError (UnicodeEncodeError m) = True"
| "is_ValueError (ValidationError m) = True"
| "is_ValueError e = False"

fun is_TypeError :: "exn \<Rightarrow> bool" where
  "is_TypeError (TypeError m) = True"
| "is_TypeError e = False"

subsection \<open>\<open>str(int)\<close> and \<open>int(str)\<close>\<close>

text \<open>
  The decimal text of an integer: decimal digits, a leading minus sign when negative.
\<close>

fun str_nat :: "nat \<Rightarrow> pystr" where
  "str_nat n = (if n < 10 then [48 + n] else str_nat (n div 10) @ [48 + n mod 10])"

declare str_nat.simps [simp del]

definition str_int :: "int \<Rightarrow> pystr" where
  "str_int i = (if i < 0 then 45 # str_nat (nat (- i)) else str_nat (nat i))"

text \<open>
  Python converts between \<open>int\<close> and \<open>str\<close> only up to
  \<open>sys.get_int_max_str_digits()\<close> digits, 4300 unless the interpreter is configured
  otherwise (the repository does not configure it): beyond that \<open>str(n)\<close>, an f-string
  with \<open>n\<close> and \<open>int(s)\<close> raise \<open>ValueError\<close>. \<open>digits n\<close> is the number of decimal
  digits of \<open>n\<close> (the sign does not count), and \<open>int_str n\<close> is \<open>str(n)\<close> with its
  exception.
\<close>

definition INT_MAX_STR_DIGITS :: nat where
  "INT_MAX_STR_DIGITS = 4300"

definition digits :: "int \<Rightarrow> nat" where
  "digits n = length (str_nat (nat \<bar>n\<bar>))"

definition MSG_INT_LIMIT :: pystr where
  "MSG_INT_LIMIT =
     ascii ''Exceeds the limit (4300 digits) for integer string conversion; ''
     @ ascii ''use sys.set_int_max_str_digits() to increase the limit''"

definition int_str :: "int \<Rightarrow> exn + pystr" where
  "int_str n =
     (if INT_MAX_STR_DIGITS < digits n then Inl (ValueError MSG_INT_LIMIT)
      else Inr (str_int n))"

text \<open>
  \<open>int(s)\<close> of a Python string, \<open>None\<close> where Python raises \<open>ValueError\<close>. CPython first
  maps every non-ASCII white space to a blank and every non-ASCII decimal digit to its
  ASCII digit (any other non-ASCII character is an error); then it skips white space at
  both ends (tab, line feed, vertical tab, form feed, carriage return, blank), reads one
  optional sign and a run of digits in which single underscores may stand between two
  digits. The two look-ups in the Unicode database are parameters: \<open>uspace\<close> and
  \<open>udecimal\<close>. A text with more than \<open>INT_MAX_STR_DIGITS\<close> digits is an error as
  well: every digit counts, leading zeros too; the sign, the underscores and the white
  space around the number do not.
\<close>

record unicode_db =
  uspace :: "nat \<Rightarrow> bool"
  udecimal :: "nat \<Rightarrow> nat option"

definition to_ascii_char :: "unicode_db \<Rightarrow> nat \<Rightarrow> nat option" where
  "to_ascii_char db c =
     (if c < 128 then Some c
      else if uspace db c then Some 32
      else (case udecimal db c of None \<Rightarrow> None | Some d \<Rightarrow> Some (48 + d)))"

fun to_ascii_text :: "unicode_db \<Rightarrow> pystr \<Rightarrow> pystr option" where
  "to_ascii_text db [] = Some []"
| "to_ascii_text db (c # cs) =
     (case to_ascii_char db c of
        None \<Rightarrow> None
      | Some a \<Rightarrow> (case to_ascii_text db cs of None \<Rightarrow> None | Some r \<Rightarrow> Some (a # r)))"

definition is_space :: "nat \<Rightarrow> bool" where
  "is_space c = (c = 32 \<or> (9 \<le> c \<and> c \<le> 13))"

definition is_digit :: "nat \<Rightarrow> bool" where
  "is_digit c = (48 \<le> c \<and> c \<le> 57)"

definition strip :: "pystr \<Rightarrow> pystr" where
  "strip s = rev (dropWhile is_space (rev (dropWhile is_space s)))"

fun digits_val :: "nat \<Rightarrow> pystr \<Rightarrow> nat option" where
  "digits_val acc [] = Some acc"
| "digits_val acc (c # cs) =
     (if is_digit c then digits_val (acc * 10 + (c - 48)) cs
      else if c = 95 then
        (case cs of
           [] \<Rightarrow> None
         | d # ds \<Rightarrow> if is_digit d then digits_val acc cs else None)
      else None)"

definition parse_digits :: "pystr \<Rightarrow> nat option" where
  "parse_digits s =
     (case s of
        [] \<Rightarrow> None
      | c # cs \<Rightarrow>
          if is_digit c then
            (if INT_MAX_STR_DIGITS < length (filter is_digit s) then None
             else digits_val 0 s)
          else None)"

definition parse_signed :: "pystr \<Rightarrow> int option" where
  "parse_signed s =
     (case s of
        [] \<Rightarrow> None
      | c # cs \<Rightarrow>
          if c = 45 then map_option (\<lambda>n. - int n) (parse_digits cs)
          else if c = 43 then map_option int (parse_digits cs)
          else map_option int (parse_digits s))"

definition py_int :: "unicode_db \<Rightarrow> pystr \<Rightarrow> int option" where
  "py_int db s =
     (case to_ascii_text db s of None \<Rightarrow> None | Some a \<Rightarrow> parse_signed (strip a))"


subsection \<open>JSON values, dictionaries and the HTTP layer\<close>

text \<open>
  A value of a decoded JSON document, as far as the source looks at it: it is tested for
  truth (\<open>not access_token\<close>), compared with \<open>0\<close> (\<open>errcode != 0\<close>), formatted into an
  f-string and handed on (\<open>msgid\<close>). A float carries whether it is non-zero and its
  \<open>str()\<close> text, a list or an object whether it is non-empty and its \<open>str()\<close> text.
  The JSON decoder reads an integer with \<open>int()\<close>, so an integer of a decoded document
  has at most \<open>INT_MAX_STR_DIGITS\<close> digits (a longer one makes the decoding raise
  \<open>ValueError\<close>) and its \<open>str()\<close> is \<open>str_int\<close>.
\<close>

datatype pyval =
    PNone
  | PBool bool
  | PInt int
  | PStr pystr
  | PFloat bool pystr
  | PContainer bool pystr

fun py_str :: "pyval \<Rightarrow> pystr" where
  "py_str PNone = ascii ''None''"
| "py_str (PBool b) = (if b then ascii ''True'' else ascii ''False'')"
| "py_str (PInt n) = str_int n"
| "py_str (PStr s) = s"
| "py_str (PFloat nz t) = t"
| "py_str (PContainer ne t) = t"

fun truthy :: "pyval \<Rightarrow> bool" where
  "truthy PNone = False"
| "truthy (PBool b) = b"
| "truthy (PInt n) = (n \<noteq> 0)"
| "truthy (PStr s) = (s \<noteq> [])"
| "truthy (PFloat nz t) = nz"
| "truthy (PContainer ne t) = ne"

text \<open>\<open>v != 0\<close>: numbers and booleans compare by value, everything else differs from 0.\<close>

fun ne_zero :: "pyval \<Rightarrow> bool" where
  "ne_zero (PInt n) = (n \<noteq> 0)"
| "ne_zero (PBool b) = b"
| "ne_zero (PFloat nz t) = nz"
| "ne_zero v = True"

type_synonym dict = "(pystr \<times> pyval) list"

definition has_key :: "dict \<Rightarrow> pystr \<Rightarrow> bool" where
  "has_key d k = (map_of d k \<noteq> None)"

definition dict_get :: "dict \<Rightarrow> pystr \<Rightarrow> pyval \<Rightarrow> pyval" where
  "dict_get d k dflt = (case map_of d k of None \<Rightarrow> dflt | Some v \<Rightarrow> v)"

text \<open>The JSON bodies the service sends, and the two kinds of outbound call.\<close>

datatype jbody =
    JText pystr
  | JNum int
  | JObj "(pystr \<times> jbody) list"

datatype http_call =
    HttpGet pystr "(pystr \<times> pystr) list"
  | HttpPost pystr jbody

section \<open>Configuration and environment (core/config.py)\<close>

record settings =
  api_keys :: "pystr list option"
  api_key_secret :: "pystr option"
  default_wechat_template_id :: "pystr option"
  default_workwechat_agentid :: "pystr option"

text \<open>
  What the code reads from outside itself:
  \<^item> \<open>cfg\<close>: the global \<open>settings\<close> object;
  \<^item> \<open>keys_file\<close>: what \<open>_load_api_keys_from_file()\<close> returns (the \<open>valid_keys\<close> of
    api_keys.json, the empty list when the file is missing or unreadable);
  \<^item> \<open>clock\<close>: \<open>int(time.time())\<close>, the current time in whole seconds;
  \<^item> \<open>hmac_sha256\<close>: the digest \<open>hmac.new(key, msg, sha256).digest()\<close> of the standard
    library, from the key bytes and the message bytes to the digest bytes;
  \<^item> \<open>udb\<close>: the Unicode database look-ups of \<open>int()\<close>;
  \<^item> \<open>http\<close>: the shared HTTP client behind \<open>fetch_json\<close> and \<open>post_json\<close>: for each
    outbound call either the decoded JSON object of the response or the exception raised
    (\<open>RuntimeError\<close> of an uninitialised client, httpx errors, \<open>raise_for_status\<close>, a body
    that is not JSON or holds an integer of more than \<open>INT_MAX_STR_DIGITS\<close> digits). The
    annotations of \<open>fetch_json\<close> and \<open>post_json\<close> promise a \<open>dict\<close>; other JSON documents
    are not modelled;
  \<^item> \<open>msgid_field\<close>: pydantic's validation of the field \<open>msgid: str | None\<close> when a
    \<open>SendResponse\<close> is built: the value stored, or the \<open>ValidationError\<close> raised.
\<close>

record env =
  cfg :: settings
  keys_file :: "pystr list"
  clock :: int
  hmac_sha256 :: "nat list \<Rightarrow> nat list \<Rightarrow> nat list"
  udb :: unicode_db
  http :: "http_call \<Rightarrow> exn + dict"
  msgid_field :: "pyval \<Rightarrow> exn + pyval"

definition api_keys_list :: "env \<Rightarrow> pystr list" where
  "api_keys_list E = (case api_keys (cfg E) of None \<Rightarrow> keys_file E | Some ks \<Rightarrow> ks)"

section \<open>Authentication (core/security.py)\<close>

definition TIMESTAMP_VALIDITY_WINDOW :: int where
  "TIMESTAMP_VALIDITY_WINDOW = 300"

definition verify_api_key :: "env \<Rightarrow> pystr \<Rightarrow> bool" where
  "verify_api_key E api_key =
     (if api_key = [] then False
      else let api_keys = api_keys_list E in
        if api_keys = [] then False
        else api_key \<in> set api_keys)"

text \<open>
  \<open>s.encode("utf-8")\<close>: a surrogate code point cannot be encoded and raises
  \<open>UnicodeEncodeError\<close>. A Python string holds no code point above 0x10FFFF; the model
  raises there as well.
\<close>

definition utf8_char :: "nat \<Rightarrow> nat list option" where
  "utf8_char c =
     (if c < 0x80 then Some [c]
      else if c < 0x800 then Some [0xC0 + c div 64, 0x80 + c mod 64]
      else if 0xD800 \<le> c \<and> c \<le> 0xDFFF then None
      else if c < 0x10000 then
        Some [0xE0 + c div 4096, 0x80 + c div 64 mod 64, 0x80 + c mod 64]
      else if c < 0x110000 then
        Some [0xF0 + c div 262144, 0x80 + c div 4096 mod 64, 0x80 + c div 64 mod 64,
              0x80 + c mod 64]
      else None)"

fun encode_utf8 :: "pystr \<Rightarrow> exn + nat list" where
  "encode_utf8 [] = Inr []"
| "encode_utf8 (c # cs) =
     (case utf8_char c of
        None \<Rightarrow> Inl (UnicodeEncodeError (ascii ''surrogates not allowed''))
      | Some bs \<Rightarrow> (case encode_utf8 cs of Inl e \<Rightarrow> Inl e | Inr r \<Rightarrow> Inr (bs @ r)))"

text \<open>\<open>hexdigest()\<close>: two lower-case hexadecimal digits for each byte.\<close>

definition hex_digit :: "nat \<Rightarrow> nat" where
  "hex_digit d = (if d < 10 then 48 + d else 87 + d)"

definition hexdigest :: "nat list \<Rightarrow> pystr" where
  "hexdigest bs = concat (map (\<lambda>b. [hex_digit (b div 16 mod 16), hex_digit (b mod 16)]) bs)"

definition generate_signature ::
  "env \<Rightarrow> pystr \<Rightarrow> int \<Rightarrow> pystr \<Rightarrow> pystr option \<Rightarrow> exn + pystr" where
  "generate_signature E api_key timestamp payload secret_arg =
     (let secret = (case secret_arg of
                      None \<Rightarrow> (case api_key_secret (cfg E) of
                                 None \<Rightarrow> []
                               | Some s \<Rightarrow> s)
                    | Some s \<Rightarrow> s)
      in if secret = [] then
           Inl (ValueError (ascii ''Signature secret is required for generating signature''))
         else
           (case int_str timestamp of
              Inl e \<Rightarrow> Inl e
            | Inr timestamp_text \<Rightarrow>
                let message = api_key @ timestamp_text @ payload in
                (case encode_utf8 secret of
                   Inl e \<Rightarrow> Inl e
                 | Inr key \<Rightarrow>
                     (case encode_utf8 message of
                        Inl e \<Rightarrow> Inl e
                      | Inr msg \<Rightarrow> Inr (hexdigest (hmac_sha256 E key msg))))))"

text \<open>
  \<open>hmac.compare_digest(a, b)\<close> on two strings: \<open>TypeError\<close> unless both are ASCII,
  otherwise whether they are equal.
\<close>

definition compare_digest :: "pystr \<Rightarrow> pystr \<Rightarrow> exn + bool" where
  "compare_digest a b =
     (if list_all (\<lambda>c. c < 128) a \<and> list_all (\<lambda>c. c < 128) b then Inr (a = b)
      else Inl (TypeError (ascii ''comparing strings with non-ASCII characters is not supported'')))"

text \<open>
  The \<open>try\<close> of \<open>verify_signature\<close> catches \<open>ValueError\<close> and \<open>TypeError\<close> and answers
  \<open>False\<close>; any other exception would leave the function.
\<close>

definition verify_signature ::
  "env \<Rightarrow> pystr \<Rightarrow> int \<Rightarrow> pystr \<Rightarrow> pystr \<Rightarrow> pystr option \<Rightarrow> exn + bool" where
  "verify_signature E api_key timestamp payload signature secret_arg =
     (let body =
        (case generate_signature E api_key timestamp payload secret_arg of
           Inl e \<Rightarrow> Inl e
         | Inr expected_signature \<Rightarrow> compare_digest expected_signature signature)
      in case body of
           Inl e \<Rightarrow> if is_ValueError e \<or> is_TypeError e then Inr False else Inl e
         | Inr b \<Rightarrow> Inr b)"

definition verify_timestamp :: "env \<Rightarrow> int \<Rightarrow> int \<Rightarrow> bool" where
  "verify_timestamp E timestamp validity_window =
     (let current_time = clock E;
          time_diff = abs (current_time - timestamp)
      in time_diff \<le> validity_window)"

definition MSG_INVALID_KEY :: pystr where
  "MSG_INVALID_KEY = [0x9879, 0x76EE, 0x8BC6, 0x522B, 0x7801, 0x65E0, 0x6548]"

definition MSG_TIMESTAMP_REQUIRED :: pystr where
  "MSG_TIMESTAMP_REQUIRED =
     [0x4F7F, 0x7528, 0x7B7E, 0x540D, 0x9A8C, 0x8BC1, 0x65F6, 0xFF0C,
      0x65F6, 0x95F4, 0x6233, 0x53C2, 0x6570, 0x5FC5, 0x586B]"

definition MSG_TIMESTAMP_EXPIRED :: pystr where
  "MSG_TIMESTAMP_EXPIRED = [0x8BF7, 0x6C42, 0x65F6, 0x95F4, 0x6233, 0x8FC7, 0x671F]"

definition MSG_SIGNATURE_FAILED :: pystr where
  "MSG_SIGNATURE_FAILED =
     [0x8BC6, 0x522B, 0x7801, 0x7B7E, 0x540D, 0x9A8C, 0x8BC1, 0x5931, 0x8D25]"

definition MSG_VALID :: pystr where
  "MSG_VALID = [0x9A8C, 0x8BC1, 0x6210, 0x529F]"

text \<open>
  \<open>if signature:\<close> holds for a string that is neither \<open>None\<close> nor empty. The default of
  \<open>verify_signature\<close>'s \<open>secret\<close> is used, so the secret is the configured one.
\<close>

definition validate_api_key_with_signature ::
  "env \<Rightarrow> pystr \<Rightarrow> int option \<Rightarrow> pystr \<Rightarrow> pystr option \<Rightarrow> exn + (bool \<times> pystr)" where
  "validate_api_key_with_signature E api_key timestamp payload signature =
     (if \<not> verify_api_key E api_key then Inr (False, MSG_INVALID_KEY)
      else
        (case signature of
           None \<Rightarrow> Inr (True, MSG_VALID)
         | Some sg \<Rightarrow>
             if sg = [] then Inr (True, MSG_VALID)
             else
               (case timestamp of
                  None \<Rightarrow> Inr (False, MSG_TIMESTAMP_REQUIRED)
                | Some ts \<Rightarrow>
                    if \<not> verify_timestamp E ts TIMESTAMP_VALIDITY_WINDOW then
                      Inr (False, MSG_TIMESTAMP_EXPIRED)
                    else
                      (case verify_signature E api_key ts payload sg None of
                         Inl e \<Rightarrow> Inl e
                       | Inr ok \<Rightarrow>
                           if \<not> ok then Inr (False, MSG_SIGNATURE_FAILED)
                           else Inr (True, MSG_VALID)))))"


section \<open>The HTTP client (utils/http_client.py)\<close>

text \<open>
  An operation that may call a vendor returns its outcome together with the outbound
  calls it made, in order. \<open>fetch_json\<close> and \<open>post_json\<close> make exactly one.
\<close>

type_synonym 'a io = "(exn + 'a) \<times> http_call list"

definition fetch_json :: "env \<Rightarrow> pystr \<Rightarrow> (pystr \<times> pystr) list \<Rightarrow> dict io" where
  "fetch_json E url params = (http E (HttpGet url params), [HttpGet url params])"

definition post_json :: "env \<Rightarrow> pystr \<Rightarrow> jbody \<Rightarrow> dict io" where
  "post_json E url json = (http E (HttpPost url json), [HttpPost url json])"

text \<open>
  The check every caller makes on a vendor's answer: when the object has an \<open>errcode\<close>
  that differs from 0, \<open>ValueError\<close> with the text
  \<open>prefix + "errcode=" + str(errcode) + ", errmsg=" + str(errmsg)\<close>.
\<close>

definition vendor_error :: "pystr \<Rightarrow> dict \<Rightarrow> exn option" where
  "vendor_error pre response_data =
     (if has_key response_data (ascii ''errcode'') then
        let errcode = dict_get response_data (ascii ''errcode'') (PInt 0);
            errmsg = dict_get response_data (ascii ''errmsg'') (PStr (ascii ''Unknown error''))
        in if ne_zero errcode then
             Some (ValueError (pre @ ascii ''errcode='' @ py_str errcode
                                 @ ascii '', errmsg='' @ py_str errmsg))
           else None
      else None)"

definition token_of_response :: "dict \<Rightarrow> exn + (pyval \<times> pyval)" where
  "token_of_response response_data =
     (let access_token = dict_get response_data (ascii ''access_token'') PNone;
          expires_in = dict_get response_data (ascii ''expires_in'') (PInt 7200)
      in if \<not> truthy access_token then
           Inl (ValueError (ascii ''Access token not found in response''))
         else Inr (access_token, expires_in))"

definition get_access_token ::
  "env \<Rightarrow> pystr \<Rightarrow> pystr \<Rightarrow> pystr \<Rightarrow> pystr \<Rightarrow> (pyval \<times> pyval) io" where
  "get_access_token E token_url appid secret grant_type =
     (let params = [(ascii ''grant_type'', grant_type), (ascii ''appid'', appid),
                    (ascii ''secret'', secret)];
          (r, calls) = fetch_json E token_url params
      in (case r of
            Inl (HTTPStatusError st m) \<Rightarrow>
              Inl (ValueError (ascii ''Failed to get access token: HTTP '' @ str_int (int st)))
          | Inl (RequestError m) \<Rightarrow>
              Inl (ValueError (ascii ''Failed to get access token: '' @ m))
          | Inl e \<Rightarrow> Inl e
          | Inr response_data \<Rightarrow>
              (case vendor_error (ascii ''WeChat API error: '') response_data of
                 Some e \<Rightarrow> Inl e
               | None \<Rightarrow> token_of_response response_data),
          calls))"

section \<open>Error codes scraped from error text\<close>

text \<open>
  \<open>s.split(sep)\<close> for a non-empty separator: the pieces between the occurrences of
  \<open>sep\<close>, found from left to right without overlap. (Python raises on an empty
  separator; the separators of the source are literals.)
\<close>

function split_from :: "pystr \<Rightarrow> pystr \<Rightarrow> pystr \<Rightarrow> pystr list" where
  "split_from sep acc [] = [rev acc]"
| "split_from sep acc (c # cs) =
     (if sep \<noteq> [] \<and> prefix sep (c # cs)
      then rev acc # split_from sep [] (drop (length sep) (c # cs))
      else split_from sep (c # acc) cs)"
  by pat_completeness auto
termination
  by (relation "measure (\<lambda>(sep, acc, s). length s)") auto

definition py_split :: "pystr \<Rightarrow> pystr \<Rightarrow> pystr list" where
  "py_split sep s = split_from sep [] s"

text \<open>\<open>xs[i]\<close> for \<open>i \<ge> 0\<close>: \<open>None\<close> where Python raises \<open>IndexError\<close>.\<close>

definition py_index :: "'a list \<Rightarrow> nat \<Rightarrow> 'a option" where
  "py_index xs i = (if i < length xs then Some (xs ! i) else None)"

text \<open>
  The block both dispatchers run on a caught \<open>ValueError\<close>:
  \<^verbatim>\<open>
  errcode = 50000
  if "errcode=" in error_msg:
      try:
          errcode_str = error_msg.split("errcode=")[1].split(",")[0]
          errcode = int(errcode_str)
      except (ValueError, IndexError):
          pass
  \<close>
\<close>

definition extract_errcode :: "env \<Rightarrow> pystr \<Rightarrow> int" where
  "extract_errcode E error_msg =
     (if sublist (ascii ''errcode='') error_msg then
        (case py_index (py_split (ascii ''errcode='') error_msg) 1 of
           None \<Rightarrow> 50000
         | Some part \<Rightarrow>
             (case py_index (py_split (ascii '','') part) 0 of
                None \<Rightarrow> 50000
              | Some errcode_str \<Rightarrow>
                  (case py_int (udb E) errcode_str of
                     None \<Rightarrow> 50000
                   | Some n \<Rightarrow> n)))
      else 50000)"

text \<open>The dictionary both dispatchers return.\<close>

record send_result =
  errcode :: int
  errmsg :: pystr
  msgid :: pyval

definition MSG_SEND_FAILED :: pystr where
  "MSG_SEND_FAILED = [0x53D1, 0x9001, 0x6D88, 0x606F, 0x5931, 0x8D25] @ ascii '': ''"

text \<open>
  The two \<open>except\<close> clauses at the end of both \<open>send_message\<close> methods:
  \<open>except ValueError\<close> scrapes the code from the text, \<open>except Exception\<close> answers 50000.
\<close>

definition on_exception :: "env \<Rightarrow> exn \<Rightarrow> send_result" where
  "on_exception E e =
     (if is_ValueError e then
        let error_msg = exn_str e
        in \<lparr>errcode = extract_errcode E error_msg, errmsg = error_msg, msgid = PNone\<rparr>
      else \<lparr>errcode = 50000, errmsg = MSG_SEND_FAILED @ exn_str e, msgid = PNone\<rparr>)"

definition on_success :: "dict \<Rightarrow> send_result" where
  "on_success response_data =
     \<lparr>errcode = 0, errmsg = ascii ''ok'',
      msgid = dict_get response_data (ascii ''msgid'') PNone\<rparr>"

text \<open>\<open>not s\<close> for an optional string: it is \<open>None\<close> or empty.\<close>

definition absent :: "pystr option \<Rightarrow> bool" where
  "absent s = (case s of None \<Rightarrow> True | Some t \<Rightarrow> t = [])"


section \<open>Platform A: the public-platform service (services/wechat.py)\<close>

definition WECHAT_TOKEN_URL :: pystr where
  "WECHAT_TOKEN_URL = ascii ''https://api.weixin.qq.com/cgi-bin/token''"

definition WECHAT_TEMPLATE_SEND_URL :: pystr where
  "WECHAT_TEMPLATE_SEND_URL = ascii ''https://api.weixin.qq.com/cgi-bin/message/template/send''"

text \<open>The method logs a \<open>ValueError\<close> and raises it again.\<close>

definition WeChatService_get_access_token ::
  "env \<Rightarrow> pystr \<Rightarrow> pystr \<Rightarrow> (pyval \<times> pyval) io" where
  "WeChatService_get_access_token E appid secret =
     get_access_token E WECHAT_TOKEN_URL appid secret (ascii ''client_credential'')"

text \<open>
  The text of the \<open>ValueError\<close> for a missing template id: "template_id is required.
  Give a template_id parameter in the request, or set default_wechat_template_id in the
  configuration", in Chinese.
\<close>

definition MSG_TEMPLATE_ID_REQUIRED :: pystr where
  "MSG_TEMPLATE_ID_REQUIRED =
     ascii ''template_id '' @ [0x662F, 0x5FC5, 0x9700, 0x7684, 0x3002]
     @ [0x8BF7, 0x5728, 0x8BF7, 0x6C42, 0x4E2D, 0x63D0, 0x4F9B] @ ascii '' template_id ''
     @ [0x53C2, 0x6570, 0xFF0C, 0x6216, 0x5728, 0x914D, 0x7F6E, 0x4E2D, 0x8BBE, 0x7F6E]
     @ ascii '' default_wechat_template_id''"

definition MSG_WECHAT_API_ERROR :: pystr where
  "MSG_WECHAT_API_ERROR = [0x5FAE, 0x4FE1] @ ascii '' API '' @ [0x9519, 0x8BEF] @ ascii '': ''"

definition MSG_WECHAT_SEND_FAILED :: pystr where
  "MSG_WECHAT_SEND_FAILED =
     [0x53D1, 0x9001, 0x5FAE, 0x4FE1, 0x6A21, 0x677F, 0x6D88, 0x606F, 0x5931, 0x8D25]
     @ ascii '': ''"

text \<open>
  The \<open>try\<close> around a \<open>post_json\<close> call, in both services: a \<open>ValueError\<close> is raised
  again, any other exception becomes \<open>ValueError(fail_prefix + str(e))\<close>, an answer
  with a non-zero \<open>errcode\<close> becomes the \<open>ValueError\<close> of \<open>vendor_error\<close>.
\<close>

definition post_checked :: "env \<Rightarrow> pystr \<Rightarrow> pystr \<Rightarrow> pystr \<Rightarrow> jbody \<Rightarrow> dict io" where
  "post_checked E api_prefix fail_prefix url request_body =
     (let (r, calls) = post_json E url request_body
      in (case r of
            Inl e \<Rightarrow>
              if is_ValueError e then Inl e
              else Inl (ValueError (fail_prefix @ exn_str e))
          | Inr response_data \<Rightarrow>
              (case vendor_error api_prefix response_data of
                 Some e \<Rightarrow> Inl e
               | None \<Rightarrow> Inr response_data),
          calls))"

definition WeChatService_send_template_message ::
  "env \<Rightarrow> pyval \<Rightarrow> pystr \<Rightarrow> pystr \<Rightarrow> pystr \<Rightarrow> pystr option \<Rightarrow> pystr option \<Rightarrow> dict io" where
  "WeChatService_send_template_message E access_token userid title content base_url template_id =
     (let template_id1 =
            (if absent template_id then default_wechat_template_id (cfg E) else template_id)
      in case template_id1 of
           None \<Rightarrow> (Inl (ValueError MSG_TEMPLATE_ID_REQUIRED), [])
         | Some tid \<Rightarrow>
             if tid = [] then (Inl (ValueError MSG_TEMPLATE_ID_REQUIRED), [])
             else
               let template_data =
                     JObj [(ascii ''title'',
                              JObj [(ascii ''value'', JText title),
                                    (ascii ''color'', JText (ascii ''#173177''))]),
                           (ascii ''content'',
                              JObj [(ascii ''value'', JText content),
                                    (ascii ''color'', JText (ascii ''#173177''))])];
                   request_body =
                     JObj ([(ascii ''touser'', JText userid),
                            (ascii ''template_id'', JText tid),
                            (ascii ''data'', template_data)]
                           @ (case base_url of
                                None \<Rightarrow> []
                              | Some u \<Rightarrow> if u = [] then [] else [(ascii ''url'', JText u)]))
               in post_checked E MSG_WECHAT_API_ERROR MSG_WECHAT_SEND_FAILED
                    (WECHAT_TEMPLATE_SEND_URL @ ascii ''?access_token='' @ py_str access_token)
                    request_body)"

text \<open>
  \<open>send_message\<close> is a \<open>try\<close> block with the two \<open>except\<close> clauses of \<open>on_exception\<close>.
  \<open>WeChatService_send_steps\<close> is the block: the token is fetched first, then the template
  message is sent; \<open>finish\<close> is what the method returns for each outcome of the block.
\<close>

definition finish :: "env \<Rightarrow> dict io \<Rightarrow> send_result \<times> http_call list" where
  "finish E body =
     (case body of
        (Inl e, calls) \<Rightarrow> (on_exception E e, calls)
      | (Inr response_data, calls) \<Rightarrow> (on_success response_data, calls))"

definition WeChatService_send_steps ::
  "env \<Rightarrow> pystr \<Rightarrow> pystr \<Rightarrow> pystr \<Rightarrow> pystr \<Rightarrow> pystr \<Rightarrow> pystr option \<Rightarrow> pystr option
     \<Rightarrow> dict io" where
  "WeChatService_send_steps E appid secret userid title content base_url template_id =
     (let (tok, calls1) = WeChatService_get_access_token E appid secret
      in case tok of
           Inl e \<Rightarrow> (Inl e, calls1)
         | Inr (access_token, expires_in) \<Rightarrow>
             let (sent, calls2) =
                   WeChatService_send_template_message E access_token userid title content
                     base_url template_id
             in (sent, calls1 @ calls2))"

definition WeChatService_send_message ::
  "env \<Rightarrow> pystr \<Rightarrow> pystr \<Rightarrow> pystr \<Rightarrow> pystr \<Rightarrow> pystr \<Rightarrow> pystr option \<Rightarrow> pystr option
     \<Rightarrow> send_result \<times> http_call list" where
  "WeChatService_send_message E appid secret userid title content base_url template_id =
     finish E (WeChatService_send_steps E appid secret userid title content base_url template_id)"

section \<open>Platform B: the enterprise service (services/workwechat.py)\<close>

definition WORKWECHAT_TOKEN_URL :: pystr where
  "WORKWECHAT_TOKEN_URL = ascii ''https://qyapi.weixin.qq.com/cgi-bin/gettoken''"

definition WORKWECHAT_MESSAGE_SEND_URL :: pystr where
  "WORKWECHAT_MESSAGE_SEND_URL = ascii ''https://qyapi.weixin.qq.com/cgi-bin/message/send''"

definition MSG_WORK_API_ERROR :: pystr where
  "MSG_WORK_API_ERROR =
     [0x4F01, 0x4E1A, 0x5FAE, 0x4FE1] @ ascii '' API '' @ [0x9519, 0x8BEF] @ ascii '': ''"

definition MSG_WORK_TOKEN_FAILED :: pystr where
  "MSG_WORK_TOKEN_FAILED =
     [0x83B7, 0x53D6, 0x4F01, 0x4E1A, 0x5FAE, 0x4FE1] @ ascii '' Access Token ''
     @ [0x5931, 0x8D25] @ ascii '': ''"

definition MSG_WORK_SEND_FAILED :: pystr where
  "MSG_WORK_SEND_FAILED =
     [0x53D1, 0x9001, 0x4F01, 0x4E1A, 0x5FAE, 0x4FE1, 0x6D88, 0x606F, 0x5931, 0x8D25]
     @ ascii '': ''"

text \<open>
  The text for a missing agent id: "agentid is required. Give an agentid parameter in the
  request, or set default_workwechat_agentid in the configuration", in Chinese.
\<close>

definition MSG_AGENTID_REQUIRED :: pystr where
  "MSG_AGENTID_REQUIRED =
     ascii ''agentid '' @ [0x662F, 0x5FC5, 0x9700, 0x7684, 0x3002]
     @ [0x8BF7, 0x5728, 0x8BF7, 0x6C42, 0x4E2D, 0x63D0, 0x4F9B] @ ascii '' agentid ''
     @ [0x53C2, 0x6570, 0xFF0C, 0x6216, 0x5728, 0x914D, 0x7F6E, 0x4E2D, 0x8BBE, 0x7F6E]
     @ ascii '' default_workwechat_agentid''"

text \<open>"agentid must be a valid integer, current value: ", in Chinese.\<close>

definition MSG_AGENTID_INTEGER :: pystr where
  "MSG_AGENTID_INTEGER =
     ascii ''agentid ''
     @ [0x5FC5, 0x987B, 0x662F, 0x6709, 0x6548, 0x7684, 0x6574, 0x6570, 0xFF0C,
        0x5F53, 0x524D, 0x503C]
     @ ascii '': ''"

text \<open>", type: ", in Chinese.\<close>

definition MSG_TYPE :: pystr where
  "MSG_TYPE = [0xFF0C, 0x7C7B, 0x578B] @ ascii '': ''"

definition WorkWeChatService_get_access_token ::
  "env \<Rightarrow> pystr \<Rightarrow> pystr \<Rightarrow> (pyval \<times> pyval) io" where
  "WorkWeChatService_get_access_token E corpid corpsecret =
     (let params = [(ascii ''corpid'', corpid), (ascii ''corpsecret'', corpsecret)];
          (r, calls) = fetch_json E WORKWECHAT_TOKEN_URL params
      in (case r of
            Inl e \<Rightarrow>
              if is_ValueError e then Inl e
              else Inl (ValueError (MSG_WORK_TOKEN_FAILED @ exn_str e))
          | Inr response_data \<Rightarrow>
              (case vendor_error MSG_WORK_API_ERROR response_data of
                 Some e \<Rightarrow> Inl e
               | None \<Rightarrow> token_of_response response_data),
          calls))"

definition WorkWeChatService_send_text_message ::
  "env \<Rightarrow> pyval \<Rightarrow> pystr \<Rightarrow> pystr \<Rightarrow> pystr \<Rightarrow> pystr \<Rightarrow> dict io" where
  "WorkWeChatService_send_text_message E access_token userid agentid title content =
     (let message_text = title @ [10, 10] @ content
      in case py_int (udb E) agentid of
           None \<Rightarrow> (Inl (ValueError (MSG_AGENTID_INTEGER @ agentid)), [])
         | Some agentid_int \<Rightarrow>
             let request_body =
                   JObj [(ascii ''touser'', JText userid),
                         (ascii ''msgtype'', JText (ascii ''text'')),
                         (ascii ''agentid'', JNum agentid_int),
                         (ascii ''text'', JObj [(ascii ''content'', JText message_text)]),
                         (ascii ''safe'', JNum 0)]
             in post_checked E MSG_WORK_API_ERROR MSG_WORK_SEND_FAILED
                  (WORKWECHAT_MESSAGE_SEND_URL @ ascii ''?access_token='' @ py_str access_token)
                  request_body)"

text \<open>
  The \<open>try\<close> block of \<open>send_message\<close>, entered once the agent id has been checked.
  \<open>agentid_int\<close> is the integer that \<open>int(agentid)\<close> returned, so it has at most
  \<open>INT_MAX_STR_DIGITS\<close> digits and \<open>str(agentid_int)\<close> is \<open>str_int agentid_int\<close>.
\<close>

definition WorkWeChatService_send_steps ::
  "env \<Rightarrow> pystr \<Rightarrow> pystr \<Rightarrow> pystr \<Rightarrow> int \<Rightarrow> pystr \<Rightarrow> pystr \<Rightarrow> dict io" where
  "WorkWeChatService_send_steps E appid secret userid agentid_int title content =
     (let (tok, calls1) = WorkWeChatService_get_access_token E appid secret
      in case tok of
           Inl e \<Rightarrow> (Inl e, calls1)
         | Inr (access_token, expires_in) \<Rightarrow>
             let (sent, calls2) =
                   WorkWeChatService_send_text_message E access_token userid
                     (str_int agentid_int) title content
             in (sent, calls1 @ calls2))"

definition WorkWeChatService_send_message ::
  "env \<Rightarrow> pystr \<Rightarrow> pystr \<Rightarrow> pystr \<Rightarrow> pystr \<Rightarrow> pystr \<Rightarrow> pystr option \<Rightarrow> pystr option
     \<Rightarrow> send_result \<times> http_call list" where
  "WorkWeChatService_send_message E appid secret userid title content base_url agentid =
     (let agentid1 =
            (if absent agentid then default_workwechat_agentid (cfg E) else agentid)
      in case agentid1 of
           None \<Rightarrow> (\<lparr>errcode = 40000, errmsg = MSG_AGENTID_REQUIRED, msgid = PNone\<rparr>, [])
         | Some ag \<Rightarrow>
             if ag = [] then
               (\<lparr>errcode = 40000, errmsg = MSG_AGENTID_REQUIRED, msgid = PNone\<rparr>, [])
             else
               (case py_int (udb E) ag of
                  None \<Rightarrow>
                    (\<lparr>errcode = 40000,
                      errmsg = MSG_AGENTID_INTEGER @ ag @ MSG_TYPE @ ascii ''str'',
                      msgid = PNone\<rparr>, [])
                | Some agentid_int \<Rightarrow>
                    finish E (WorkWeChatService_send_steps E appid secret userid agentid_int
                                title content)))"

section \<open>The GET endpoint (core/dependencies.py, schemas/send.py, routers/send.py)\<close>

definition ERRCODE_INVALID_API_KEY :: int where
  "ERRCODE_INVALID_API_KEY = 40001"

definition ERRCODE_INVALID_SIGNATURE :: int where
  "ERRCODE_INVALID_SIGNATURE = 40002"

definition ERRCODE_TIMESTAMP_EXPIRED :: int where
  "ERRCODE_TIMESTAMP_EXPIRED = 40003"

text \<open>
  The twelve fields of \<open>SendRequest\<close>, which are also the twelve query parameters of the
  GET endpoint after FastAPI has typed them (a missing \<open>channel\<close> is \<open>"wechat"\<close>; a
  request that lacks a required parameter or has a malformed \<open>timestamp\<close> is answered
  422 by the framework and never reaches this code). The framework reads the timestamp
  from its decimal text, so a timestamp that arrives here has at most
  \<open>INT_MAX_STR_DIGITS\<close> digits.
\<close>

record send_fields =
  sr_api_key :: pystr
  sr_title :: pystr
  sr_content :: pystr
  sr_appid :: pystr
  sr_secret :: pystr
  sr_userid :: pystr
  sr_base_url :: "pystr option"
  sr_template_id :: "pystr option"
  sr_agentid :: "pystr option"
  sr_channel :: pystr
  sr_timestamp :: "int option"
  sr_signature :: "pystr option"

text \<open>
  A GET request: its typed parameters, the raw query string as the list of its
  \<open>(key, value)\<close> pairs in order, and the scheme and host of its URL.
\<close>

record request =
  query :: send_fields
  query_params :: "(pystr \<times> pystr) list"
  url_scheme :: pystr
  url_netloc :: pystr

fun join :: "pystr \<Rightarrow> pystr list \<Rightarrow> pystr" where
  "join sep [] = []"
| "join sep [x] = x"
| "join sep (x # y # ys) = x @ sep @ join sep (y # ys)"

text \<open>
  The payload that is signed: \<open>dict(request.query_params)\<close> keeps one value for each key
  (the last one), \<open>signature\<close> is removed, the items are sorted (by key, the keys being
  distinct) and joined as \<open>k=v\<close> with \<open>&\<close>.
\<close>

definition query_payload :: "(pystr \<times> pystr) list \<Rightarrow> pystr" where
  "query_payload items =
     (let keys = filter (\<lambda>k. k \<noteq> ascii ''signature'') (remdups (map fst items));
          sorted_params =
            map (\<lambda>k. (k, case map_of (rev items) k of None \<Rightarrow> [] | Some v \<Rightarrow> v)) (sort keys)
      in join (ascii ''&'') (map (\<lambda>(k, v). k @ ascii ''='' @ v) sorted_params))"

text \<open>"signature verification failed" and "timestamp expired", in Chinese.\<close>

definition SUB_SIGNATURE_FAILED :: pystr where
  "SUB_SIGNATURE_FAILED = [0x7B7E, 0x540D, 0x9A8C, 0x8BC1, 0x5931, 0x8D25]"

definition SUB_TIMESTAMP_EXPIRED :: pystr where
  "SUB_TIMESTAMP_EXPIRED = [0x65F6, 0x95F4, 0x6233, 0x8FC7, 0x671F]"

definition auth_errcode :: "pystr \<Rightarrow> int" where
  "auth_errcode error_msg =
     (if sublist SUB_SIGNATURE_FAILED error_msg then ERRCODE_INVALID_SIGNATURE
      else if sublist SUB_TIMESTAMP_EXPIRED error_msg then ERRCODE_TIMESTAMP_EXPIRED
      else ERRCODE_INVALID_API_KEY)"

definition verify_api_key_dependency :: "env \<Rightarrow> request \<Rightarrow> exn + pystr" where
  "verify_api_key_dependency E req =
     (let api_key = sr_api_key (query req);
          timestamp = sr_timestamp (query req);
          signature = sr_signature (query req);
          payload = (if absent signature then [] else query_payload (query_params req))
      in case validate_api_key_with_signature E api_key timestamp payload signature of
           Inl e \<Rightarrow> Inl e
         | Inr (is_valid, error_msg) \<Rightarrow>
             if \<not> is_valid then Inl (HTTPException 401 (auth_errcode error_msg) error_msg)
             else Inr api_key)"

text \<open>
  Building a \<open>SendRequest\<close> checks the declared lengths; the text of pydantic's error is
  never read.
\<close>

definition SendRequest :: "send_fields \<Rightarrow> exn + send_fields" where
  "SendRequest f =
     (if 1 \<le> length (sr_title f) \<and> length (sr_title f) \<le> 200
         \<and> 1 \<le> length (sr_content f) \<and> length (sr_content f) \<le> 5000
         \<and> 1 \<le> length (sr_appid f) \<and> 1 \<le> length (sr_secret f) \<and> 1 \<le> length (sr_userid f)
         \<and> (case sr_base_url f of None \<Rightarrow> True | Some u \<Rightarrow> length u \<le> 500)
         \<and> (sr_channel f = ascii ''wechat'' \<or> sr_channel f = ascii ''workwechat'')
      then Inr f
      else Inl (ValidationError (ascii ''validation error for SendRequest'')))"

text \<open>"invalid channel parameter: " and ", must be 'wechat' or 'workwechat'", in Chinese.\<close>

definition MSG_INVALID_CHANNEL :: pystr where
  "MSG_INVALID_CHANNEL =
     [0x65E0, 0x6548, 0x7684] @ ascii '' channel '' @ [0x53C2, 0x6570] @ ascii '': ''"

definition MSG_MUST_BE_CHANNEL :: pystr where
  "MSG_MUST_BE_CHANNEL =
     [0xFF0C, 0x5FC5, 0x987B, 0x662F, 32, 39] @ ascii ''wechat'' @ [39, 32, 0x6216, 32, 39]
     @ ascii ''workwechat'' @ [39]"

text \<open>
  The parameter \<open>api_key\<close> of \<open>parse_send_request_from_query\<close> is what the dependency
  \<open>verify_api_key_dependency\<close> returns, so the dependency runs first and its
  exception ends the request.
\<close>

definition parse_send_request_from_query :: "env \<Rightarrow> request \<Rightarrow> exn + send_fields" where
  "parse_send_request_from_query E req =
     (case verify_api_key_dependency E req of
        Inl e \<Rightarrow> Inl e
      | Inr api_key \<Rightarrow>
          let channel = sr_channel (query req)
          in if \<not> (channel = ascii ''wechat'' \<or> channel = ascii ''workwechat'') then
               Inl (HTTPException 400 40000 (MSG_INVALID_CHANNEL @ channel @ MSG_MUST_BE_CHANNEL))
             else SendRequest ((query req)\<lparr>sr_api_key := api_key\<rparr>))"

text \<open>
  \<open>urlencode\<close> of the standard library applies \<open>quote_plus\<close> to each value: the UTF-8
  bytes, with letters, digits and \<open>_.-~\<close> kept, a blank as \<open>+\<close>, any other byte as
  \<open>%XX\<close> in upper-case hexadecimal.
\<close>

definition quote_byte :: "nat \<Rightarrow> pystr" where
  "quote_byte b =
     (if (48 \<le> b \<and> b \<le> 57) \<or> (65 \<le> b \<and> b \<le> 90) \<or> (97 \<le> b \<and> b \<le> 122)
         \<or> b = 95 \<or> b = 46 \<or> b = 45 \<or> b = 126 then [b]
      else if b = 32 then [43]
      else [37, (let d = b div 16 mod 16 in if d < 10 then 48 + d else 55 + d),
                (let d = b mod 16 in if d < 10 then 48 + d else 55 + d)])"

definition quote_plus :: "pystr \<Rightarrow> exn + pystr" where
  "quote_plus s =
     (case encode_utf8 s of Inl e \<Rightarrow> Inl e | Inr bs \<Rightarrow> Inr (concat (map quote_byte bs)))"

definition generate_detail_url :: "request \<Rightarrow> pystr \<Rightarrow> pystr \<Rightarrow> exn + pystr" where
  "generate_detail_url req title content =
     (let base_url = url_scheme req @ ascii ''://'' @ url_netloc req;
          detail_path = ascii ''/detail''
      in case quote_plus title of
           Inl e \<Rightarrow> Inl e
         | Inr t \<Rightarrow>
             (case quote_plus content of
                Inl e \<Rightarrow> Inl e
              | Inr c \<Rightarrow>
                  Inr (base_url @ detail_path @ ascii ''?'' @ ascii ''title='' @ t
                       @ ascii ''&content='' @ c)))"

datatype send_response = SendResponse int pystr pyval

text \<open>"internal server error", in Chinese.\<close>

definition MSG_INTERNAL_ERROR :: pystr where
  "MSG_INTERNAL_ERROR = [0x670D, 0x52A1, 0x5668, 0x5185, 0x90E8, 0x9519, 0x8BEF]"

fun is_HTTPException :: "exn \<Rightarrow> bool" where
  "is_HTTPException (HTTPException st c m) = True"
| "is_HTTPException e = False"

definition send_message_handler :: "env \<Rightarrow> request \<Rightarrow> send_fields \<Rightarrow> send_response io" where
  "send_message_handler E req send_request =
     (case (if absent (sr_base_url send_request)
            then generate_detail_url req (sr_title send_request) (sr_content send_request)
            else Inr (case sr_base_url send_request of None \<Rightarrow> [] | Some u \<Rightarrow> u)) of
        Inl e \<Rightarrow> (Inl e, [])
      | Inr base_url \<Rightarrow>
          let (result, calls) =
                (if sr_channel send_request = ascii ''workwechat'' then
                   WorkWeChatService_send_message E (sr_appid send_request)
                     (sr_secret send_request) (sr_userid send_request) (sr_title send_request)
                     (sr_content send_request) (Some base_url) (sr_agentid send_request)
                 else
                   WeChatService_send_message E (sr_appid send_request)
                     (sr_secret send_request) (sr_userid send_request) (sr_title send_request)
                     (sr_content send_request) (Some base_url) (sr_template_id send_request))
          in if errcode result \<noteq> 0 then
               (Inl (HTTPException 400 (errcode result) (errmsg result)), calls)
             else
               (case msgid_field E (msgid result) of
                  Inl e \<Rightarrow>
                    if is_HTTPException e then (Inl e, calls)
                    else (Inl (HTTPException 500 50000
                                 (MSG_INTERNAL_ERROR @ ascii '': '' @ exn_str e)), calls)
                | Inr m \<Rightarrow> (Inr (SendResponse (errcode result) (errmsg result) m), calls)))"

definition send_message_get :: "env \<Rightarrow> request \<Rightarrow> send_response io" where
  "send_message_get E req =
     (case parse_send_request_from_query E req of
        Inl e \<Rightarrow> (Inl e, [])
      | Inr send_request \<Rightarrow> send_message_handler E req send_request)"

subsection \<open>The POST endpoint\<close>

text \<open>
  \<open>json.dumps(s, ensure_ascii=False)\<close> of a string: quotes (34) around the text, with
  the quote, the backslash (92) and the control characters escaped by a backslash and
  the quote, a backslash, \<open>b\<close>, \<open>f\<close>, \<open>n\<close>, \<open>r\<close>, \<open>t\<close> or \<open>u\<close> and four hexadecimal digits.
\<close>

definition hex4 :: "nat \<Rightarrow> pystr" where
  "hex4 c = map (\<lambda>d. hex_digit (c div d mod 16)) [4096, 256, 16, 1]"

definition json_escape :: "nat \<Rightarrow> pystr" where
  "json_escape c =
     (if c = 34 then [92, 34]
      else if c = 92 then [92, 92]
      else if c = 8 then [92, 98]
      else if c = 12 then [92, 102]
      else if c = 10 then [92, 110]
      else if c = 13 then [92, 114]
      else if c = 9 then [92, 116]
      else if c < 32 then [92, 117] @ hex4 c
      else [c])"

definition json_string :: "pystr \<Rightarrow> pystr" where
  "json_string s = [34] @ concat (map json_escape s) @ [34]"

text \<open>
  The payload that is signed for a body: \<open>json.dumps(payload_dict, sort_keys=True,
  ensure_ascii=False)\<close>, written here with the keys in their sorted order. The optional
  fields are present when they are truthy (\<open>timestamp\<close>: when it is not \<open>None\<close>);
  \<open>channel\<close> always is, and \<open>agentid\<close> is not part of the dictionary.
\<close>

definition body_payload :: "send_fields \<Rightarrow> pystr" where
  "body_payload f =
     (let str_item = (\<lambda>k v. json_string (ascii k) @ ascii '': '' @ json_string v);
          opt_item = (\<lambda>k v. case v of
                                None \<Rightarrow> []
                              | Some t \<Rightarrow> if t = [] then [] else [str_item k t])
      in ascii ''{''
         @ join (ascii '', '')
             ([str_item ''api_key'' (sr_api_key f), str_item ''appid'' (sr_appid f)]
              @ opt_item ''base_url'' (sr_base_url f)
              @ (if sr_channel f = [] then [] else [str_item ''channel'' (sr_channel f)])
              @ [str_item ''content'' (sr_content f), str_item ''secret'' (sr_secret f)]
              @ opt_item ''template_id'' (sr_template_id f)
              @ (case sr_timestamp f of
                   None \<Rightarrow> []
                 | Some ts \<Rightarrow> [json_string (ascii ''timestamp'') @ ascii '': '' @ str_int ts])
              @ [str_item ''title'' (sr_title f), str_item ''userid'' (sr_userid f)])
         @ ascii ''}'')"

definition verify_api_key_from_body :: "env \<Rightarrow> send_fields \<Rightarrow> exn + send_fields" where
  "verify_api_key_from_body E send_request =
     (let payload = (if absent (sr_signature send_request) then []
                     else body_payload send_request)
      in case validate_api_key_with_signature E (sr_api_key send_request)
                (sr_timestamp send_request) payload (sr_signature send_request) of
           Inl e \<Rightarrow> Inl e
         | Inr (is_valid, error_msg) \<Rightarrow>
             if \<not> is_valid then Inl (HTTPException 401 (auth_errcode error_msg) error_msg)
             else Inr send_request)"

text \<open>
  The body of a POST request has been parsed into a \<open>SendRequest\<close> by the framework
  before the endpoint runs: its argument is a \<open>send_fields\<close> that \<open>SendRequest\<close> accepts.
\<close>

definition send_message_post :: "env \<Rightarrow> request \<Rightarrow> send_fields \<Rightarrow> send_response io" where
  "send_message_post E req send_request =
     (case verify_api_key_from_body E send_request of
        Inl e \<Rightarrow> (Inl e, [])
      | Inr checked \<Rightarrow> send_message_handler E req send_request)"

text \<open>
  What the client receives: the \<open>SendResponse\<close> with status 200; for an
  \<open>HTTPException\<close> its status code and its detail; for any other exception the answer
  of \<open>global_exception_handler\<close> (main.py), status 500 and code 50000.
\<close>

datatype http_response =
    Ok200 send_response
  | ErrorDetail nat int pystr
  | ErrorPlain nat int pystr

fun respond :: "exn + send_response \<Rightarrow> http_response" where
  "respond (Inr r) = Ok200 r"
| "respond (Inl (HTTPException st c m)) = ErrorDetail st c m"
| "respond (Inl e) = ErrorPlain 500 50000 MSG_INTERNAL_ERROR"

definition app_get :: "env \<Rightarrow> request \<Rightarrow> http_response \<times> http_call list" where
  "app_get E req = (let (r, calls) = send_message_get E req in (respond r, calls))"

text \<open>
  A body that \<open>SendRequest\<close> rejects is answered by \<open>validation_exception_handler\<close>
  (main.py) with status 422, code 42200 and "request parameter validation failed".
\<close>

definition MSG_VALIDATION_FAILED :: pystr where
  "MSG_VALIDATION_FAILED = [0x8BF7, 0x6C42, 0x53C2, 0x6570, 0x9A8C, 0x8BC1, 0x5931, 0x8D25]"

definition app_post :: "env \<Rightarrow> request \<Rightarrow> send_fields \<Rightarrow> http_response \<times> http_call list" where
  "app_post E req body =
     (case SendRequest body of
        Inl e \<Rightarrow> (ErrorPlain 422 42200 MSG_VALIDATION_FAILED, [])
      | Inr send_request \<Rightarrow>
          let (r, calls) = send_message_post E req send_request in (respond r, calls))"


section \<open>The claims in the words of the specification\<close>

text \<open>
  The signature the specification expects: the hexadecimal HMAC-SHA256 digest of
  \<open>api_key || timestamp || payload\<close> under the secret, where the timestamp has a
  decimal text (\<open>int_str\<close>) and both the secret and the message can be encoded.
\<close>

definition expected_signature :: "env \<Rightarrow> pystr \<Rightarrow> int \<Rightarrow> pystr \<Rightarrow> pystr \<Rightarrow> pystr option" where
  "expected_signature E api_key timestamp payload secret =
     (case int_str timestamp of
        Inl e \<Rightarrow> None
      | Inr timestamp_text \<Rightarrow>
          (case encode_utf8 secret of
             Inl e \<Rightarrow> None
           | Inr key \<Rightarrow>
               (case encode_utf8 (api_key @ timestamp_text @ payload) of
                  Inl e \<Rightarrow> None
                | Inr msg \<Rightarrow> Some (hexdigest (hmac_sha256 E key msg)))))"

text \<open>
  The code a failure carries, read off its text from left to right: \<open>code_text\<close> is the
  text \<open>NNN\<close> that follows the first \<open>errcode=\<close>, up to the next comma, the next
  \<open>errcode=\<close> or the end. A vendor or token failure (a \<open>ValueError\<close>) whose \<open>NNN\<close> is an
  integer has that code; every other failure has the generic code 50000.
\<close>

fun after_first :: "pystr \<Rightarrow> pystr \<Rightarrow> pystr option" where
  "after_first sep [] = None"
| "after_first sep (c # cs) =
     (if prefix sep (c # cs) then Some (drop (length sep) (c # cs)) else after_first sep cs)"

text \<open>The text before the first occurrence of \<open>sep\<close>, all of it when there is none.\<close>

fun before_first :: "pystr \<Rightarrow> pystr \<Rightarrow> pystr" where
  "before_first sep [] = []"
| "before_first sep (c # cs) =
     (if prefix sep (c # cs) then [] else c # before_first sep cs)"

fun until_delim :: "pystr \<Rightarrow> pystr" where
  "until_delim [] = []"
| "until_delim (c # cs) =
     (if c = 44 \<or> prefix (ascii ''errcode='') (c # cs) then [] else c # until_delim cs)"

definition code_text :: "pystr \<Rightarrow> pystr option" where
  "code_text msg = map_option until_delim (after_first (ascii ''errcode='') msg)"

definition spec_errcode :: "env \<Rightarrow> exn \<Rightarrow> int" where
  "spec_errcode E e =
     (if is_ValueError e then
        (case code_text (exn_str e) of
           None \<Rightarrow> 50000
         | Some NNN \<Rightarrow> (case py_int (udb E) NNN of None \<Rightarrow> 50000 | Some n \<Rightarrow> n))
      else 50000)"

text \<open>
  The result the specification gives a dispatcher for each outcome of its steps: on
  success code 0, \<open>"ok"\<close> and the vendor's message id; on a failure the code of
  \<open>spec_errcode\<close>, the text of the failure and no message id.
\<close>

definition caught_text :: "exn \<Rightarrow> pystr" where
  "caught_text e = (if is_ValueError e then exn_str e else MSG_SEND_FAILED @ exn_str e)"

definition spec_result :: "env \<Rightarrow> dict io \<Rightarrow> send_result \<times> http_call list" where
  "spec_result E body =
     (case fst body of
        Inr response_data \<Rightarrow>
          \<lparr>errcode = 0, errmsg = ascii ''ok'',
           msgid = dict_get response_data (ascii ''msgid'') PNone\<rparr>
      | Inl e \<Rightarrow> \<lparr>errcode = spec_errcode E e, errmsg = caught_text e, msgid = PNone\<rparr>,
      snd body)"


text \<open>"timestamp", in Chinese.\<close>

definition TIMESTAMP_WORD :: pystr where
  "TIMESTAMP_WORD = [0x65F6, 0x95F4, 0x6233]"

section \<open>Test environments\<close>

text \<open>
  The configuration of tests/conftest.py with a signing secret, a fixed clock and vendor
  doubles like those of the tests. The digest function of the test environment is a
  stand-in (no theorem depends on which function it is); its Unicode database knows the
  no-break space, the ideographic space and the full-width digits.
\<close>

definition test_settings :: settings where
  "test_settings =
     \<lparr>api_keys = Some [ascii ''test_api_key_12345'', ascii ''test_api_key_67890''],
      api_key_secret = Some (ascii ''test_secret''),
      default_wechat_template_id = None,
      default_workwechat_agentid = None\<rparr>"

definition test_udb :: unicode_db where
  "test_udb =
     \<lparr>uspace = (\<lambda>c. c = 0xA0 \<or> c = 0x3000),
      udecimal = (\<lambda>c. if 0xFF10 \<le> c \<and> c \<le> 0xFF19 then Some (c - 0xFF10) else None)\<rparr>"

fun test_msgid_field :: "pyval \<Rightarrow> exn + pyval" where
  "test_msgid_field PNone = Inr PNone"
| "test_msgid_field (PStr s) = Inr (PStr s)"
| "test_msgid_field v = Inl (ValidationError (ascii ''Input should be a valid string''))"

text \<open>A vendor that answers every call well.\<close>

fun vendor_ok :: "http_call \<Rightarrow> exn + dict" where
  "vendor_ok (HttpGet url params) =
     Inr [(ascii ''errcode'', PInt 0), (ascii ''errmsg'', PStr (ascii ''ok'')),
          (ascii ''access_token'', PStr (ascii ''test_token'')),
          (ascii ''expires_in'', PInt 7200)]"
| "vendor_ok (HttpPost url body) =
     Inr [(ascii ''errcode'', PInt 0), (ascii ''errmsg'', PStr (ascii ''ok'')),
          (ascii ''msgid'', PStr (ascii ''test_msgid''))]"


text \<open>
  A vendor that refuses the token, as in \<open>test_get_access_token_failure\<close>
  (tests/test_wechat.py).
\<close>

definition vendor_token_rejected :: "http_call \<Rightarrow> exn + dict" where
  "vendor_token_rejected call =
     Inr [(ascii ''errcode'', PInt 40013), (ascii ''errmsg'', PStr (ascii ''invalid appid''))]"

text \<open>A vendor that cannot be reached.\<close>

definition vendor_down :: "http_call \<Rightarrow> exn + dict" where
  "vendor_down call = Inl (RequestError (ascii ''All connection attempts failed''))"

text \<open>
  A vendor whose error answer has a code that is not a number and a text that quotes
  another code; and an HTTP layer that fails with an exception of its own.
\<close>

definition vendor_odd :: "http_call \<Rightarrow> exn + dict" where
  "vendor_odd call =
     Inr [(ascii ''errcode'', PStr (ascii ''E1001'')),
          (ascii ''errmsg'', PStr (ascii ''see errcode=42''))]"

definition vendor_crash :: "http_call \<Rightarrow> exn + dict" where
  "vendor_crash call = Inl (OtherError (ascii ''errcode=7''))"


definition test_env :: env where
  "test_env =
     \<lparr>cfg = test_settings,
      keys_file = [],
      clock = 1700000000,
      hmac_sha256 = (\<lambda>key msg. key @ msg),
      udb = test_udb,
      http = vendor_ok,
      msgid_field = test_msgid_field\<rparr>"

definition test_fields :: send_fields where
  "test_fields =
     \<lparr>sr_api_key = ascii ''test_api_key_12345'',
      sr_title = ascii ''title'',
      sr_content = ascii ''content'',
      sr_appid = ascii ''test_appid'',
      sr_secret = ascii ''test_secret'',
      sr_userid = ascii ''test_userid'',
      sr_base_url = None,
      sr_template_id = None,
      sr_agentid = None,
      sr_channel = ascii ''wechat'',
      sr_timestamp = None,
      sr_signature = None\<rparr>"

text \<open>
  A GET request with the given fields; the raw query string holds the required
  parameters and the channel.
\<close>

definition test_request :: "send_fields \<Rightarrow> request" where
  "test_request f =
     \<lparr>query = f,
      query_params =
        [(ascii ''api_key'', sr_api_key f), (ascii ''title'', sr_title f),
         (ascii ''content'', sr_content f), (ascii ''appid'', sr_appid f),
         (ascii ''secret'', sr_secret f), (ascii ''userid'', sr_userid f),
         (ascii ''channel'', sr_channel f)]
        @ (case sr_signature f of None \<Rightarrow> [] | Some sg \<Rightarrow> [(ascii ''signature'', sg)]),
      url_scheme = ascii ''http'',
      url_netloc = ascii ''testserver''\<rparr>"

text \<open>A valid key and a signature, but no timestamp.\<close>

definition signed_request_without_timestamp :: request where
  "signed_request_without_timestamp =
     test_request (test_fields\<lparr>sr_signature := Some (ascii ''test_signature'')\<rparr>)"

text \<open>
  An unknown channel: with a valid key, with a valid key and a signature whose timestamp
  is long past, and with an invalid key.
\<close>

definition bogus_channel_request :: request where
  "bogus_channel_request = test_request (test_fields\<lparr>sr_channel := ascii ''bogus''\<rparr>)"

definition bogus_channel_expired_request :: request where
  "bogus_channel_expired_request =
     test_request (test_fields\<lparr>sr_channel := ascii ''bogus'',
                                sr_timestamp := Some 0,
                                sr_signature := Some (ascii ''test_signature'')\<rparr>)"

definition bogus_channel_invalid_key_request :: request where
  "bogus_channel_invalid_key_request =
     test_request (test_fields\<lparr>sr_api_key := ascii ''invalid_key'',
                                sr_channel := ascii ''bogus''\<rparr>)"

section \<open>Authentication: the claims\<close>

text \<open>
  C3. \<open>verify_timestamp\<close> with the default window accepts a timestamp exactly when it is
  at most 300 seconds away from the current time, on either side: an offset of 300 is
  accepted and an offset of 301 is rejected, in the past and in the future.
\<close>

theorem verify_timestamp_window:
  "verify_timestamp E t TIMESTAMP_VALIDITY_WINDOW = (\<bar>clock E - t\<bar> \<le> 300)
   \<and> verify_timestamp E (clock E - 300) TIMESTAMP_VALIDITY_WINDOW
   \<and> verify_timestamp E (clock E + 300) TIMESTAMP_VALIDITY_WINDOW
   \<and> \<not> verify_timestamp E (clock E - 301) TIMESTAMP_VALIDITY_WINDOW
   \<and> \<not> verify_timestamp E (clock E + 301) TIMESTAMP_VALIDITY_WINDOW"
  by (simp add: verify_timestamp_def TIMESTAMP_VALIDITY_WINDOW_def Let_def)

text \<open>
  C9. When no API key is configured (the list of keys is empty), \<open>verify_api_key\<close>
  rejects every key, the non-empty ones too.
\<close>

theorem verify_api_key_no_keys:
  "api_keys_list E = [] \<Longrightarrow> verify_api_key E api_key = False"
  by (simp add: verify_api_key_def)

theorem verify_api_key_no_keys_witness:
  "api_keys_list (test_env\<lparr>cfg := test_settings\<lparr>api_keys := None\<rparr>\<rparr>) = []
   \<and> verify_api_key (test_env\<lparr>cfg := test_settings\<lparr>api_keys := None\<rparr>\<rparr>)
         (ascii ''test_api_key_12345'') = False"
proof -
  have h: "api_keys_list (test_env\<lparr>cfg := test_settings\<lparr>api_keys := None\<rparr>\<rparr>) = []"
    by (simp add: api_keys_list_def test_env_def test_settings_def)
  show ?thesis
    using h verify_api_key_no_keys [OF h, of "ascii ''test_api_key_12345''"] by simp
qed


text \<open>
  C10. An empty signature counts as no signature: with a valid API key the validation
  succeeds in API-key-only mode whatever the timestamp is, absent or outside the window.
\<close>

theorem empty_signature_is_no_signature:
  "verify_api_key E api_key \<Longrightarrow>
   validate_api_key_with_signature E api_key timestamp payload (Some []) = Inr (True, MSG_VALID)"
  by (simp add: validate_api_key_with_signature_def)

theorem empty_signature_is_no_signature_witness:
  "verify_api_key test_env (ascii ''test_api_key_12345'')
   \<and> validate_api_key_with_signature test_env (ascii ''test_api_key_12345'') None
        (ascii ''payload'') (Some []) = Inr (True, MSG_VALID)
   \<and> \<not> verify_timestamp test_env 0 TIMESTAMP_VALIDITY_WINDOW
   \<and> validate_api_key_with_signature test_env (ascii ''test_api_key_12345'') (Some 0)
        (ascii ''payload'') (Some []) = Inr (True, MSG_VALID)"
proof -
  have h: "verify_api_key test_env (ascii ''test_api_key_12345'')"
    by (simp add: verify_api_key_def api_keys_list_def test_env_def test_settings_def ascii_def)
  have w: "\<not> verify_timestamp test_env 0 TIMESTAMP_VALIDITY_WINDOW"
    by (simp add: verify_timestamp_def test_env_def TIMESTAMP_VALIDITY_WINDOW_def)
  show ?thesis
    using h w empty_signature_is_no_signature [OF h, of None "ascii ''payload''"]
      empty_signature_is_no_signature [OF h, of "Some 0" "ascii ''payload''"]
    by simp
qed

subsection \<open>Signatures\<close>

lemma hex_digit_ascii: "d < 16 \<Longrightarrow> hex_digit d < 128"
  by (simp add: hex_digit_def)

lemma hexdigest_ascii: "list_all (\<lambda>c. c < 128) (hexdigest bs)"
  by (induction bs) (simp_all add: hexdigest_def hex_digit_ascii)

lemma encode_utf8_raises: "encode_utf8 s = Inl e \<Longrightarrow> is_ValueError e"
  by (induction s arbitrary: e) (auto split: option.splits sum.splits)

lemma generate_signature_expected:
  "secret \<noteq> [] \<Longrightarrow>
   (generate_signature E api_key ts payload (Some secret) = Inr s)
     = (expected_signature E api_key ts payload secret = Some s)"
  by (auto simp: generate_signature_def expected_signature_def Let_def split: sum.splits)

lemma int_str_raises: "int_str n = Inl e \<Longrightarrow> is_ValueError e"
  by (auto simp: int_str_def split: if_splits)

lemma generate_signature_raises:
  "generate_signature E api_key ts payload sec = Inl e \<Longrightarrow> is_ValueError e"
  by (auto simp: generate_signature_def Let_def
      split: sum.splits if_splits option.splits dest: encode_utf8_raises int_str_raises)

lemma generate_signature_ascii:
  "generate_signature E api_key ts payload sec = Inr s \<Longrightarrow> list_all (\<lambda>c. c < 128) s"
  by (auto simp: generate_signature_def Let_def hexdigest_ascii
      split: sum.splits if_splits option.splits)

text \<open>
  \<open>verify_signature\<close> never raises: it answers whether \<open>generate_signature\<close> returns the
  supplied signature. A digest is ASCII, so \<open>compare_digest\<close> can only raise when the
  supplied signature is not, and then the two differ.
\<close>

lemma verify_signature_eq:
  "verify_signature E api_key ts payload s sec
     = Inr (generate_signature E api_key ts payload sec = Inr s)"
proof (cases "generate_signature E api_key ts payload sec")
  case (Inl e)
  then show ?thesis
    using generate_signature_raises [OF Inl] by (simp add: verify_signature_def)
next
  case (Inr x)
  have "list_all (\<lambda>c. c < 128) x"
    using generate_signature_ascii [OF Inr] .
  then show ?thesis
    using Inr by (auto simp: verify_signature_def compare_digest_def)
qed

text \<open>
  C2. Under a non-empty secret, \<open>verify_signature\<close> returns true exactly when the supplied
  signature is the hexadecimal HMAC-SHA256 digest of \<open>api_key + timestamp + payload\<close>
  under that secret; a signature that \<open>generate_signature\<close> returns verifies, and a
  signature that differs from the expected one does not. (Where the message cannot be
  formed or encoded there is no digest: \<open>generate_signature\<close> raises and
  \<open>verify_signature\<close> answers false.)
\<close>

theorem verify_signature_iff:
  assumes "secret \<noteq> []"
  shows "verify_signature E api_key ts payload s (Some secret)
           = Inr (expected_signature E api_key ts payload secret = Some s)
         \<and> (\<forall>sg. generate_signature E api_key ts payload (Some secret) = Inr sg
                 \<longrightarrow> verify_signature E api_key ts payload sg (Some secret) = Inr True)
         \<and> (\<forall>sg. expected_signature E api_key ts payload secret = Some sg \<and> s \<noteq> sg
                 \<longrightarrow> verify_signature E api_key ts payload s (Some secret) = Inr False)"
  using assms by (auto simp: verify_signature_eq generate_signature_expected)

lemma test_expected_signature:
  "expected_signature test_env (ascii ''test_api_key'') 1700000000 (ascii ''test_payload'')
     (ascii ''test_secret'')
   = Some (hexdigest (ascii ''test_secrettest_api_key1700000000test_payload''))"
  by (simp add: expected_signature_def test_env_def ascii_def utf8_char_def int_str_def
      digits_def INT_MAX_STR_DIGITS_def str_int_def str_nat.simps)

lemma test_invalid_signature:
  "hexdigest (ascii ''test_secrettest_api_key1700000000test_payload'')
   \<noteq> ascii ''invalid_signature''"
  by (simp add: hexdigest_def ascii_def)

theorem verify_signature_iff_witness:
  "ascii ''test_secret'' \<noteq> []
   \<and> generate_signature test_env (ascii ''test_api_key'') 1700000000 (ascii ''test_payload'')
        (Some (ascii ''test_secret''))
      = Inr (hexdigest (ascii ''test_secrettest_api_key1700000000test_payload''))
   \<and> verify_signature test_env (ascii ''test_api_key'') 1700000000 (ascii ''test_payload'')
        (hexdigest (ascii ''test_secrettest_api_key1700000000test_payload''))
        (Some (ascii ''test_secret'')) = Inr True
   \<and> verify_signature test_env (ascii ''test_api_key'') 1700000000 (ascii ''test_payload'')
        (ascii ''invalid_signature'') (Some (ascii ''test_secret'')) = Inr False"
proof -
  have h: "ascii ''test_secret'' \<noteq> []"
    by (simp add: ascii_def)
  note t = verify_signature_iff [OF h, of test_env "ascii ''test_api_key''" 1700000000
      "ascii ''test_payload''"]
  show ?thesis
    using h t [of "hexdigest (ascii ''test_secrettest_api_key1700000000test_payload'')"]
      t [of "ascii ''invalid_signature''"] test_expected_signature test_invalid_signature
    by (simp add: generate_signature_expected)
qed

section \<open>Splitting and scanning text\<close>

lemma split_from_not_Nil: "split_from sep acc s \<noteq> []"
  by (induction sep acc s rule: split_from.induct) auto

lemma split_from_hd:
  "sep \<noteq> [] \<Longrightarrow> hd (split_from sep acc s) = rev acc @ before_first sep s"
  by (induction sep acc s rule: split_from.induct) auto

text \<open>
  The second piece of a split is the text after the first separator, cut before the
  next one; there is no second piece when the separator does not occur.
\<close>

lemma split_from_second:
  "sep \<noteq> [] \<Longrightarrow>
   py_index (split_from sep acc s) 1 = map_option (before_first sep) (after_first sep s)"
proof (induction sep acc s rule: split_from.induct)
  case (1 sep acc)
  then show ?case by (simp add: py_index_def)
next
  case (2 sep acc c cs)
  show ?case
  proof (cases "prefix sep (c # cs)")
    case True
    let ?r = "split_from sep [] (drop (length sep) (c # cs))"
    have "?r \<noteq> []"
      by (rule split_from_not_Nil)
    then obtain x xs where r: "?r = x # xs"
      by (cases ?r) auto
    have "x = before_first sep (drop (length sep) (c # cs))"
      using split_from_hd [OF 2(3), of "[]" "drop (length sep) (c # cs)"] r by simp
    then show ?thesis
      using True 2(3) r by (simp add: py_index_def)
  next
    case False
    then show ?thesis
      using 2 by simp
  qed
qed

lemma before_first_comma: "before_first [44] s = takeWhile (\<lambda>c. c \<noteq> 44) s"
  by (induction s) auto

lemma until_delim_eq:
  "until_delim s = takeWhile (\<lambda>c. c \<noteq> 44) (before_first (ascii ''errcode='') s)"
  by (induction s) auto

lemma sublist_after_first:
  "sep \<noteq> [] \<Longrightarrow> sublist sep s = (after_first sep s \<noteq> None)"
  by (induction s) (auto simp: sublist_Cons_right)

lemma ascii_comma: "ascii '','' = [44]"
  by (simp add: ascii_def)

lemma sep_not_Nil: "ascii ''errcode='' \<noteq> []"
  by (simp add: ascii_def)

lemma py_index_0: "py_index xs 0 = (case xs of [] \<Rightarrow> None | x # _ \<Rightarrow> Some x)"
  by (cases xs) (simp_all add: py_index_def)

lemma first_piece_comma:
  "py_index (py_split (ascii '','') part) 0 = Some (takeWhile (\<lambda>c. c \<noteq> 44) part)"
proof -
  have ne: "split_from [44] [] part \<noteq> []"
    by (rule split_from_not_Nil)
  have "hd (split_from [44] [] part) = before_first [44] part"
    using split_from_hd [of "[44]" "[]" part] by simp
  then show ?thesis
    using ne
    by (cases "split_from [44] [] part")
      (simp_all add: py_index_0 py_split_def ascii_comma before_first_comma)
qed

text \<open>
  The two splits and the two index operations of the source compute \<open>code_text\<close>.
\<close>

lemma extract_errcode_spec:
  "extract_errcode E msg =
     (case code_text msg of
        None \<Rightarrow> 50000
      | Some NNN \<Rightarrow> (case py_int (udb E) NNN of None \<Rightarrow> 50000 | Some n \<Rightarrow> n))"
proof (cases "after_first (ascii ''errcode='') msg")
  case None
  then show ?thesis
    by (simp add: extract_errcode_def code_text_def sublist_after_first [OF sep_not_Nil])
next
  case (Some rest)
  have two: "py_index (py_split (ascii ''errcode='') msg) 1
               = Some (before_first (ascii ''errcode='') rest)"
    using split_from_second [OF sep_not_Nil, of "[]" msg] Some by (simp add: py_split_def)
  show ?thesis
    using Some
    by (simp only: extract_errcode_def code_text_def sublist_after_first [OF sep_not_Nil] two
        first_piece_comma until_delim_eq option.simps if_True not_False_eq_True)
qed

lemma on_exception_spec:
  "on_exception E e =
     \<lparr>errcode = spec_errcode E e, errmsg = caught_text e, msgid = PNone\<rparr>"
  by (simp add: on_exception_def spec_errcode_def extract_errcode_spec Let_def caught_text_def)

lemma finish_spec: "finish E body = spec_result E body"
  by (cases body)
    (auto simp: finish_def spec_result_def on_exception_spec on_success_def split: sum.splits)





section \<open>Integers and their decimal text\<close>

lemma str_nat_digits: "list_all is_digit (str_nat n)"
proof (induction n rule: str_nat.induct)
  case (1 n)
  show ?case
  proof (cases "n < 10")
    case True
    then show ?thesis
      by (simp add: str_nat.simps [of n] is_digit_def)
  next
    case False
    have "n mod 10 < 10"
      by simp
    then have "is_digit (48 + n mod 10)"
      unfolding is_digit_def by linarith
    then show ?thesis
      using False 1 by (simp add: str_nat.simps [of n])
  qed
qed

lemma str_nat_not_Nil: "str_nat n \<noteq> []"
  by (cases "n < 10") (simp_all add: str_nat.simps [of n])

lemma digits_val_append:
  "list_all is_digit xs \<Longrightarrow>
   digits_val acc (xs @ ys)
     = (case digits_val acc xs of None \<Rightarrow> None | Some a \<Rightarrow> digits_val a ys)"
  by (induction xs arbitrary: acc) auto

lemma digits_val_str_nat: "digits_val 0 (str_nat n) = Some n"
proof (induction n rule: str_nat.induct)
  case (1 n)
  show ?case
  proof (cases "n < 10")
    case True
    then show ?thesis
      by (simp add: str_nat.simps [of n] is_digit_def)
  next
    case False
    have d: "is_digit (48 + n mod 10)"
    proof -
      have "n mod 10 < 10"
        by simp
      then show ?thesis
        unfolding is_digit_def by linarith
    qed
    have "digits_val 0 (str_nat (n div 10) @ [48 + n mod 10])
            = digits_val (n div 10) [48 + n mod 10]"
      using 1 False by (simp add: digits_val_append [OF str_nat_digits])
    also have "\<dots> = Some (n div 10 * 10 + n mod 10)"
      using d by simp
    finally show ?thesis
      using False by (simp add: str_nat.simps [of n])
  qed
qed

lemma filter_digits_str_nat: "filter is_digit (str_nat n) = str_nat n"
  using str_nat_digits [of n] by (simp add: list_all_iff)

lemma parse_digits_str_nat:
  assumes "length (str_nat n) \<le> INT_MAX_STR_DIGITS"
  shows "parse_digits (str_nat n) = Some n"
proof -
  obtain c cs where s: "str_nat n = c # cs"
    using str_nat_not_Nil [of n] by (cases "str_nat n") auto
  have d: "is_digit c"
    using str_nat_digits [of n] s by simp
  have l: "\<not> INT_MAX_STR_DIGITS < length (filter is_digit (c # cs))"
    using assms filter_digits_str_nat [of n] s by simp
  show ?thesis
    using d l digits_val_str_nat [of n] by (simp only: parse_digits_def s list.case if_True if_False)
qed

lemma str_int_content: "c \<in> set (str_int i) \<Longrightarrow> is_digit c \<or> c = 45"
  using str_nat_digits by (auto simp: str_int_def list_all_iff split: if_splits)

lemma str_int_chars:
  assumes "c \<in> set (str_int i)"
  shows "c < 128" and "c \<noteq> 44" and "c \<noteq> 101" and "\<not> is_space c"
  using str_int_content [OF assms] by (auto simp: is_digit_def is_space_def)

lemma dropWhile_hd: "xs \<noteq> [] \<Longrightarrow> \<not> P (hd xs) \<Longrightarrow> dropWhile P xs = xs"
  by (cases xs) auto

lemma to_ascii_text_ascii: "list_all (\<lambda>c. c < 128) s \<Longrightarrow> to_ascii_text db s = Some s"
  by (induction s) (simp_all add: to_ascii_char_def)

lemma strip_id:
  assumes "s \<noteq> []" "\<not> is_space (hd s)" "\<not> is_space (last s)"
  shows "strip s = s"
proof -
  have 1: "dropWhile is_space s = s"
    using assms by (simp add: dropWhile_hd)
  have "rev s \<noteq> []" and "\<not> is_space (hd (rev s))"
    using assms by (simp_all add: hd_rev)
  then have 2: "dropWhile is_space (rev s) = rev s"
    by (rule dropWhile_hd)
  show ?thesis
    by (simp add: strip_def 1 2)
qed

lemma str_int_not_Nil: "str_int i \<noteq> []"
  by (simp add: str_int_def str_nat_not_Nil)

text \<open>
  \<open>int(str(i)) == i\<close>, whatever the Unicode database says, for every integer that has
  a decimal text.
\<close>

lemma py_int_str_int:
  assumes "digits i \<le> INT_MAX_STR_DIGITS"
  shows "py_int db (str_int i) = Some i"
proof -
  have a: "list_all (\<lambda>c. c < 128) (str_int i)"
    by (simp add: list_all_iff str_int_chars(1))
  have h: "\<not> is_space (hd (str_int i))"
    by (rule str_int_chars(4) [of _ i]) (simp add: str_int_not_Nil)
  have l: "\<not> is_space (last (str_int i))"
    by (rule str_int_chars(4) [of _ i]) (simp add: str_int_not_Nil)
  have s: "strip (str_int i) = str_int i"
    using strip_id [OF str_int_not_Nil h l] .
  have p: "parse_signed (str_int i) = Some i"
  proof (cases "i < 0")
    case True
    then have "length (str_nat (nat (- i))) \<le> INT_MAX_STR_DIGITS"
      using assms by (simp add: digits_def)
    then show ?thesis
      using True by (simp add: str_int_def parse_signed_def parse_digits_str_nat)
  next
    case False
    obtain c cs where c: "str_nat (nat i) = c # cs"
      using str_nat_not_Nil [of "nat i"] by (cases "str_nat (nat i)") auto
    have "is_digit c"
      using str_nat_digits [of "nat i"] c by simp
    then have n: "c \<noteq> 45" "c \<noteq> 43"
      by (auto simp: is_digit_def)
    have "length (str_nat (nat i)) \<le> INT_MAX_STR_DIGITS"
      using assms False by (simp add: digits_def)
    then have "parse_digits (c # cs) = Some (nat i)"
      using parse_digits_str_nat [of "nat i"] c by simp
    then show ?thesis
      using False c n by (simp add: str_int_def parse_signed_def)
  qed
  show ?thesis
    by (simp add: py_int_def to_ascii_text_ascii [OF a] s p)
qed

lemma int_str_round_trip: "int_str i = Inr s \<Longrightarrow> py_int db s = Some i"
  by (auto simp: int_str_def py_int_str_int split: if_splits)

text \<open>
  A text of more than \<open>INT_MAX_STR_DIGITS\<close> digits is not an integer for \<open>int()\<close>.
\<close>

lemma py_int_too_long:
  assumes "INT_MAX_STR_DIGITS < n"
  shows "py_int db (replicate n 49) = None"
proof -
  obtain m where m: "n = Suc m"
    using assms by (cases n) auto
  let ?s = "replicate n (49::nat)"
  have a: "list_all (\<lambda>c. c < 128) ?s"
    by (simp add: list_all_iff)
  have s: "strip ?s = ?s"
    by (rule strip_id) (simp_all add: m is_space_def)
  have f: "length (filter is_digit ?s) = n"
    by (simp add: is_digit_def)
  have c: "?s = 49 # replicate m 49"
    by (simp add: m)
  have "parse_digits ?s = None"
    using assms f unfolding parse_digits_def
    by (subst c) (simp add: is_digit_def)
  then have "parse_signed ?s = None"
    unfolding parse_signed_def by (subst c) simp
  then show ?thesis
    by (simp add: py_int_def to_ascii_text_ascii [OF a] s)
qed

text \<open>
  An integer that \<open>int()\<close> returns has at most \<open>INT_MAX_STR_DIGITS\<close> digits, so its
  \<open>str()\<close> exists.
\<close>

lemma digits_val_bound:
  "digits_val acc s = Some v \<Longrightarrow> v < (acc + 1) * 10 ^ length (filter is_digit s)"
proof (induction acc s rule: digits_val.induct)
  case (1 acc)
  then show ?case by simp
next
  case (2 acc c cs)
  show ?case
  proof (cases "is_digit c")
    case True
    then have "v < (acc * 10 + (c - 48) + 1) * 10 ^ length (filter is_digit cs)"
      using 2 by simp
    moreover have "acc * 10 + (c - 48) + 1 \<le> (acc + 1) * 10"
    proof -
      have "c - 48 \<le> 9"
        using True unfolding is_digit_def by arith
      then show ?thesis
        by simp
    qed
    ultimately have "v < (acc + 1) * 10 * 10 ^ length (filter is_digit cs)"
      by (meson less_le_trans mult_le_mono1)
    then show ?thesis
      using True by (simp add: algebra_simps)
  next
    case False
    then show ?thesis
      using 2 by (auto split: if_splits list.splits)
  qed
qed

lemma str_nat_length: "0 < k \<Longrightarrow> n < 10 ^ k \<Longrightarrow> length (str_nat n) \<le> k"
proof (induction n arbitrary: k rule: str_nat.induct)
  case (1 n)
  show ?case
  proof (cases "n < 10")
    case True
    then show ?thesis
      using 1(2) by (simp add: str_nat.simps [of n])
  next
    case False
    obtain j where j: "k = Suc j"
      using 1(2) by (cases k) auto
    have "0 < j"
      using False 1(3) j by (cases j) auto
    moreover have "n div 10 < 10 ^ j"
      using 1(3) j by (simp add: less_mult_imp_div_less mult.commute)
    ultimately have "length (str_nat (n div 10)) \<le> j"
      using 1(1) [OF False] by simp
    then show ?thesis
      using False j by (simp add: str_nat.simps [of n])
  qed
qed

lemma parse_digits_bound:
  assumes "parse_digits s = Some v"
  shows "length (str_nat v) \<le> INT_MAX_STR_DIGITS"
proof -
  obtain c cs where s: "s = c # cs" and d: "is_digit c"
    and l: "length (filter is_digit s) \<le> INT_MAX_STR_DIGITS"
    and v: "digits_val 0 s = Some v"
    using assms by (auto simp: parse_digits_def split: list.splits if_splits)
  have "0 < length (filter is_digit s)"
    using s d by simp
  moreover have "v < 10 ^ length (filter is_digit s)"
    using digits_val_bound [OF v] by simp
  ultimately have "length (str_nat v) \<le> length (filter is_digit s)"
    by (rule str_nat_length)
  then show ?thesis
    using l by simp
qed

lemma py_int_digits: "py_int db s = Some k \<Longrightarrow> digits k \<le> INT_MAX_STR_DIGITS"
  by (auto simp: py_int_def parse_signed_def digits_def
      split: option.splits list.splits if_splits dest: parse_digits_bound)

section \<open>The dispatchers: the claims\<close>








lemmas text_defs = ascii_def MSG_WECHAT_API_ERROR_def MSG_WORK_API_ERROR_def
  MSG_WECHAT_SEND_FAILED_def MSG_WORK_SEND_FAILED_def MSG_WORK_TOKEN_FAILED_def
  MSG_SEND_FAILED_def MSG_TEMPLATE_ID_REQUIRED_def MSG_AGENTID_REQUIRED_def
  MSG_AGENTID_INTEGER_def MSG_TYPE_def WECHAT_TOKEN_URL_def WECHAT_TEMPLATE_SEND_URL_def
  WORKWECHAT_TOKEN_URL_def WORKWECHAT_MESSAGE_SEND_URL_def

lemmas int_defs = py_int_def to_ascii_char_def strip_def is_space_def is_digit_def
  parse_signed_def parse_digits_def INT_MAX_STR_DIGITS_def str_int_def str_nat.simps

lemmas service_defs = WeChatService_send_steps_def WeChatService_get_access_token_def
  get_access_token_def fetch_json_def post_json_def vendor_error_def token_of_response_def
  has_key_def dict_get_def WeChatService_send_template_message_def post_checked_def absent_def
  WorkWeChatService_send_steps_def WorkWeChatService_get_access_token_def
  WorkWeChatService_send_text_message_def Let_def

lemmas spec_defs = spec_result_def spec_errcode_def code_text_def caught_text_def

lemmas env_defs = test_env_def test_settings_def test_udb_def vendor_down_def vendor_odd_def
  vendor_crash_def vendor_token_rejected_def








lemma agentid_named: "sublist (ascii ''agentid'') MSG_AGENTID_REQUIRED"
  by (simp add: text_defs sublist_code)


lemma test_no_agentid:
  "absent None \<and> absent (default_workwechat_agentid (cfg test_env))"
  by (simp add: absent_def env_defs)

lemma test_bad_agentid:
  "(if absent (Some (ascii ''not_a_number''))
    then default_workwechat_agentid (cfg test_env)
    else Some (ascii ''not_a_number'')) = Some (ascii ''not_a_number'')
   \<and> ascii ''not_a_number'' \<noteq> []
   \<and> py_int (udb test_env) (ascii ''not_a_number'') = None"
  by (simp add: env_defs text_defs int_defs absent_def)

lemma test_long_agentid:
  "(if absent (Some (replicate (Suc INT_MAX_STR_DIGITS) 49))
    then default_workwechat_agentid (cfg test_env)
    else Some (replicate (Suc INT_MAX_STR_DIGITS) 49))
     = Some (replicate (Suc INT_MAX_STR_DIGITS) 49)
   \<and> replicate (Suc INT_MAX_STR_DIGITS) 49 \<noteq> []
   \<and> py_int (udb test_env) (replicate (Suc INT_MAX_STR_DIGITS) 49) = None"
proof -
  have "py_int (udb test_env) (replicate (Suc INT_MAX_STR_DIGITS) 49) = None"
    by (rule py_int_too_long) simp
  then show ?thesis
    by (simp add: absent_def del: replicate.simps)
qed

text \<open>
  C5. Platform B checks the agent id before anything else. When it is absent, in the
  call and in the configuration, the dispatcher returns (it does not raise) the result
  with code 40000 and a text that names \<open>agentid\<close>, and calls no vendor. When it is
  present but \<open>int()\<close> rejects it (a text that is not a number, or a number of more than
  \<open>INT_MAX_STR_DIGITS\<close> digits), the dispatcher returns code 40000 with the text
  "agentid must be a valid integer", and calls no vendor either.
\<close>

theorem agentid_checked_before_any_call:
  "(absent agentid \<and> absent (default_workwechat_agentid (cfg E)) \<longrightarrow>
      WorkWeChatService_send_message E appid secret userid title content base_url agentid
        = (\<lparr>errcode = 40000, errmsg = MSG_AGENTID_REQUIRED, msgid = PNone\<rparr>, []))
   \<and> sublist (ascii ''agentid'') MSG_AGENTID_REQUIRED
   \<and> (\<forall>ag. (if absent agentid then default_workwechat_agentid (cfg E) else agentid) = Some ag
            \<and> ag \<noteq> [] \<and> py_int (udb E) ag = None \<longrightarrow>
      WorkWeChatService_send_message E appid secret userid title content base_url agentid
        = (\<lparr>errcode = 40000, errmsg = MSG_AGENTID_INTEGER @ ag @ MSG_TYPE @ ascii ''str'',
            msgid = PNone\<rparr>, []))"
  by (auto simp: WorkWeChatService_send_message_def absent_def agentid_named
      split: option.splits)

theorem agentid_checked_before_any_call_witness:
  "WorkWeChatService_send_message test_env (ascii ''test_corpid'') (ascii ''test_secret'')
     (ascii ''test_userid'') (ascii ''title'') (ascii ''content'') None None
     = (\<lparr>errcode = 40000, errmsg = MSG_AGENTID_REQUIRED, msgid = PNone\<rparr>, [])
   \<and> WorkWeChatService_send_message test_env (ascii ''test_corpid'') (ascii ''test_secret'')
       (ascii ''test_userid'') (ascii ''title'') (ascii ''content'') None
       (Some (ascii ''not_a_number''))
     = (\<lparr>errcode = 40000,
         errmsg = MSG_AGENTID_INTEGER @ ascii ''not_a_number'' @ MSG_TYPE @ ascii ''str'',
         msgid = PNone\<rparr>, [])
   \<and> WorkWeChatService_send_message test_env (ascii ''test_corpid'') (ascii ''test_secret'')
       (ascii ''test_userid'') (ascii ''title'') (ascii ''content'') None
       (Some (replicate (Suc INT_MAX_STR_DIGITS) 49))
     = (\<lparr>errcode = 40000,
         errmsg = MSG_AGENTID_INTEGER @ replicate (Suc INT_MAX_STR_DIGITS) 49 @ MSG_TYPE
                  @ ascii ''str'',
         msgid = PNone\<rparr>, [])"
proof -
  note a = agentid_checked_before_any_call [THEN conjunct1, rule_format, OF test_no_agentid]
  note b = agentid_checked_before_any_call [THEN conjunct2, THEN conjunct2, rule_format,
      OF test_bad_agentid]
  note c = agentid_checked_before_any_call [THEN conjunct2, THEN conjunct2, rule_format,
      OF test_long_agentid]
  show ?thesis
    by (simp only: a b c simp_thms)
qed

lemma no_code_in_template_msg: "code_text MSG_TEMPLATE_ID_REQUIRED = None"
  by (simp add: code_text_def text_defs)


text \<open>
  \<open>send_template_message\<close> raises \<open>ValueError\<close>, and calls no vendor, when the template
  id is absent in the call and in the configuration; the handler of \<open>send_message\<close>
  gives this error the generic code 50000. But \<open>send_message\<close> calls
  \<open>send_template_message\<close> only after it has fetched the token, so this is its result
  only when the token is obtained.
\<close>

lemma template_id_error_after_token:
  assumes "absent template_id \<and> absent (default_wechat_template_id (cfg E))"
  shows "WeChatService_send_template_message E access_token userid title content base_url
           template_id = (Inl (ValueError MSG_TEMPLATE_ID_REQUIRED), [])"
    and "on_exception E (ValueError MSG_TEMPLATE_ID_REQUIRED)
           = \<lparr>errcode = 50000, errmsg = MSG_TEMPLATE_ID_REQUIRED, msgid = PNone\<rparr>"
    and "WeChatService_get_access_token E appid secret = (Inr tok, calls) \<Longrightarrow>
         WeChatService_send_message E appid secret userid title content base_url template_id
           = (\<lparr>errcode = 50000, errmsg = MSG_TEMPLATE_ID_REQUIRED, msgid = PNone\<rparr>, calls)"
proof -
  have t: "WeChatService_send_template_message E tk userid title content base_url
            template_id = (Inl (ValueError MSG_TEMPLATE_ID_REQUIRED), [])" for tk
    using assms
    by (auto simp: WeChatService_send_template_message_def absent_def split: option.splits)
  show "WeChatService_send_template_message E access_token userid title content base_url
            template_id = (Inl (ValueError MSG_TEMPLATE_ID_REQUIRED), [])"
    by (rule t)
  show o: "on_exception E (ValueError MSG_TEMPLATE_ID_REQUIRED)
       = \<lparr>errcode = 50000, errmsg = MSG_TEMPLATE_ID_REQUIRED, msgid = PNone\<rparr>"
    by (simp add: on_exception_spec spec_errcode_def no_code_in_template_msg caught_text_def)
  assume "WeChatService_get_access_token E appid secret = (Inr tok, calls)"
  then show "WeChatService_send_message E appid secret userid title content base_url template_id
            = (\<lparr>errcode = 50000, errmsg = MSG_TEMPLATE_ID_REQUIRED, msgid = PNone\<rparr>, calls)"
    using t o
    by (cases tok)
      (simp add: WeChatService_send_message_def WeChatService_send_steps_def finish_def)
qed

lemma test_no_template_id:
  "absent None \<and> absent (default_wechat_template_id (cfg test_env))"
  by (simp add: absent_def env_defs)

lemma template_id_named: "sublist (ascii ''template_id'') MSG_TEMPLATE_ID_REQUIRED"
  by (simp add: text_defs sublist_code)

lemma test_token:
  "WeChatService_get_access_token test_env (ascii ''test_appid'') (ascii ''test_secret'')
     = (Inr (PStr (ascii ''test_token''), PInt 7200),
        [HttpGet WECHAT_TOKEN_URL
           [(ascii ''grant_type'', ascii ''client_credential''),
            (ascii ''appid'', ascii ''test_appid''), (ascii ''secret'', ascii ''test_secret'')]])"
  by (simp add: service_defs env_defs text_defs)

text \<open>
  C6. With the template id absent, in the call and in the configuration,
  \<open>send_template_message\<close> raises the \<open>ValueError\<close> that names \<open>template_id\<close>, and
  calls no vendor. \<open>send_message\<close> does not turn this error into its result on every
  input: it fetches the token first. When the vendor hands out a token, \<open>send_message\<close>
  returns the code 50000 with the text of that error and no message id, after the call
  of the token endpoint. When the vendor refuses the token with code 40013 (the answer
  of \<open>test_get_access_token_failure\<close>), \<open>send_message\<close> returns the code 40013 with
  the text of the token error, not the code 50000; when the vendor cannot be reached,
  it returns the code 50000 with the text of the token failure. In these two cases the
  text does not name \<open>template_id\<close>, which
  \<open>test_send_template_message_missing_template_id\<close> expects of the call without any
  vendor double.
\<close>

theorem missing_template_id_reported_after_token:
  "absent None \<and> absent (default_wechat_template_id (cfg test_env))
   \<and> WeChatService_send_template_message test_env (PStr (ascii ''test_token''))
       (ascii ''test_openid'') (ascii ''title'') (ascii ''content'') None None
     = (Inl (ValueError MSG_TEMPLATE_ID_REQUIRED), [])
   \<and> sublist (ascii ''template_id'') MSG_TEMPLATE_ID_REQUIRED
   \<and> WeChatService_send_message test_env
       (ascii ''test_appid'') (ascii ''test_secret'') (ascii ''test_openid'') (ascii ''title'')
       (ascii ''content'') None None
     = (\<lparr>errcode = 50000, errmsg = MSG_TEMPLATE_ID_REQUIRED, msgid = PNone\<rparr>,
        [HttpGet WECHAT_TOKEN_URL
           [(ascii ''grant_type'', ascii ''client_credential''),
            (ascii ''appid'', ascii ''test_appid''), (ascii ''secret'', ascii ''test_secret'')]])
   \<and> WeChatService_send_message (test_env\<lparr>http := vendor_token_rejected\<rparr>)
       (ascii ''test_appid'') (ascii ''test_secret'') (ascii ''test_openid'') (ascii ''title'')
       (ascii ''content'') None None
     = (\<lparr>errcode = 40013,
         errmsg = ascii ''WeChat API error: errcode=40013, errmsg=invalid appid'',
         msgid = PNone\<rparr>,
        [HttpGet WECHAT_TOKEN_URL
           [(ascii ''grant_type'', ascii ''client_credential''),
            (ascii ''appid'', ascii ''test_appid''), (ascii ''secret'', ascii ''test_secret'')]])
   \<and> \<not> sublist (ascii ''template_id'')
           (ascii ''WeChat API error: errcode=40013, errmsg=invalid appid'')
   \<and> WeChatService_send_message (test_env\<lparr>http := vendor_down\<rparr>)
       (ascii ''test_appid'') (ascii ''test_secret'') (ascii ''test_openid'') (ascii ''title'')
       (ascii ''content'') None None
     = (\<lparr>errcode = 50000,
         errmsg = ascii ''Failed to get access token: All connection attempts failed'',
         msgid = PNone\<rparr>,
        [HttpGet WECHAT_TOKEN_URL
           [(ascii ''grant_type'', ascii ''client_credential''),
            (ascii ''appid'', ascii ''test_appid''), (ascii ''secret'', ascii ''test_secret'')]])
   \<and> \<not> sublist (ascii ''template_id'')
           (ascii ''Failed to get access token: All connection attempts failed'')"
proof -
  have a: "WeChatService_send_template_message test_env (PStr (ascii ''test_token''))
       (ascii ''test_openid'') (ascii ''title'') (ascii ''content'') None None
     = (Inl (ValueError MSG_TEMPLATE_ID_REQUIRED), [])"
    by (rule template_id_error_after_token(1) [OF test_no_template_id])
  have ok: "WeChatService_send_message test_env
       (ascii ''test_appid'') (ascii ''test_secret'') (ascii ''test_openid'') (ascii ''title'')
       (ascii ''content'') None None
     = (\<lparr>errcode = 50000, errmsg = MSG_TEMPLATE_ID_REQUIRED, msgid = PNone\<rparr>,
        [HttpGet WECHAT_TOKEN_URL
           [(ascii ''grant_type'', ascii ''client_credential''),
            (ascii ''appid'', ascii ''test_appid''), (ascii ''secret'', ascii ''test_secret'')]])"
    by (rule template_id_error_after_token(3) [OF test_no_template_id test_token])
  have b: "WeChatService_send_message (test_env\<lparr>http := vendor_token_rejected\<rparr>)
       (ascii ''test_appid'') (ascii ''test_secret'') (ascii ''test_openid'') (ascii ''title'')
       (ascii ''content'') None None
     = (\<lparr>errcode = 40013,
         errmsg = ascii ''WeChat API error: errcode=40013, errmsg=invalid appid'',
         msgid = PNone\<rparr>,
        [HttpGet WECHAT_TOKEN_URL
           [(ascii ''grant_type'', ascii ''client_credential''),
            (ascii ''appid'', ascii ''test_appid''), (ascii ''secret'', ascii ''test_secret'')]])"
    by (simp add: WeChatService_send_message_def finish_spec service_defs spec_defs env_defs
        text_defs int_defs)
  have c: "WeChatService_send_message (test_env\<lparr>http := vendor_down\<rparr>)
       (ascii ''test_appid'') (ascii ''test_secret'') (ascii ''test_openid'') (ascii ''title'')
       (ascii ''content'') None None
     = (\<lparr>errcode = 50000,
         errmsg = ascii ''Failed to get access token: All connection attempts failed'',
         msgid = PNone\<rparr>,
        [HttpGet WECHAT_TOKEN_URL
           [(ascii ''grant_type'', ascii ''client_credential''),
            (ascii ''appid'', ascii ''test_appid''), (ascii ''secret'', ascii ''test_secret'')]])"
    by (simp add: WeChatService_send_message_def finish_spec service_defs spec_defs env_defs
        text_defs int_defs)
  have d: "\<not> sublist (ascii ''template_id'')
           (ascii ''WeChat API error: errcode=40013, errmsg=invalid appid'')"
    "\<not> sublist (ascii ''template_id'')
           (ascii ''Failed to get access token: All connection attempts failed'')"
    by (simp_all add: ascii_def sublist_code)
  show ?thesis
    using test_no_template_id a template_id_named ok b c d by simp
qed

section \<open>The GET endpoint: the claims\<close>

lemma auth_errcode_invalid_key: "auth_errcode MSG_INVALID_KEY = 40001"
  by (simp add: auth_errcode_def MSG_INVALID_KEY_def SUB_SIGNATURE_FAILED_def
      SUB_TIMESTAMP_EXPIRED_def sublist_code ERRCODE_INVALID_API_KEY_def)

lemma auth_errcode_timestamp_required: "auth_errcode MSG_TIMESTAMP_REQUIRED = 40001"
  by (simp add: auth_errcode_def MSG_TIMESTAMP_REQUIRED_def SUB_SIGNATURE_FAILED_def
      SUB_TIMESTAMP_EXPIRED_def sublist_code ERRCODE_INVALID_API_KEY_def)

lemma auth_errcode_timestamp_expired: "auth_errcode MSG_TIMESTAMP_EXPIRED = 40003"
  by (simp add: auth_errcode_def MSG_TIMESTAMP_EXPIRED_def SUB_SIGNATURE_FAILED_def
      SUB_TIMESTAMP_EXPIRED_def sublist_code ERRCODE_TIMESTAMP_EXPIRED_def)

lemma auth_errcode_signature_failed: "auth_errcode MSG_SIGNATURE_FAILED = 40002"
  by (simp add: auth_errcode_def MSG_SIGNATURE_FAILED_def SUB_SIGNATURE_FAILED_def
      SUB_TIMESTAMP_EXPIRED_def sublist_code ERRCODE_INVALID_SIGNATURE_def)

lemma validate_invalid_key:
  "\<not> verify_api_key E api_key \<Longrightarrow>
   validate_api_key_with_signature E api_key timestamp payload signature
     = Inr (False, MSG_INVALID_KEY)"
  by (simp add: validate_api_key_with_signature_def)

lemma dependency_invalid_key:
  "\<not> verify_api_key E (sr_api_key (query req)) \<Longrightarrow>
   verify_api_key_dependency E req = Inl (HTTPException 401 40001 MSG_INVALID_KEY)"
  by (simp add: verify_api_key_dependency_def validate_invalid_key Let_def
      auth_errcode_invalid_key)

lemma body_invalid_key:
  "\<not> verify_api_key E (sr_api_key f) \<Longrightarrow>
   verify_api_key_from_body E f = Inl (HTTPException 401 40001 MSG_INVALID_KEY)"
  by (simp add: verify_api_key_from_body_def validate_invalid_key Let_def
      auth_errcode_invalid_key)

lemma app_post_body_raises:
  "SendRequest body = Inr body \<Longrightarrow> verify_api_key_from_body E body = Inl e \<Longrightarrow>
   app_post E req body = (respond (Inl e), [])"
  by (simp add: app_post_def send_message_post_def)

text \<open>An exception of the dependency ends the request before any vendor is called.\<close>

lemma app_get_dependency_raises:
  "verify_api_key_dependency E req = Inl e \<Longrightarrow> app_get E req = (respond (Inl e), [])"
  by (simp add: app_get_def send_message_get_def parse_send_request_from_query_def)

text \<open>
  C8. A key that is empty or not in the loaded list fails the validation with the
  invalid-key reason, whatever the timestamp, the payload and the signature are, and a
  request with such a key (a GET request, or a POST request with a well-formed body) is
  answered 401 with code 40001 without any vendor call.
\<close>

theorem invalid_key_rejected:
  assumes "api_key = [] \<or> api_key \<notin> set (api_keys_list E)"
  shows "validate_api_key_with_signature E api_key timestamp payload signature
           = Inr (False, MSG_INVALID_KEY)
         \<and> (sr_api_key (query req) = api_key \<longrightarrow>
              app_get E req = (ErrorDetail 401 40001 MSG_INVALID_KEY, []))
         \<and> (SendRequest body = Inr body \<and> sr_api_key body = api_key \<longrightarrow>
              app_post E req body = (ErrorDetail 401 40001 MSG_INVALID_KEY, []))
         \<and> ERRCODE_INVALID_API_KEY = 40001"
proof -
  have n: "\<not> verify_api_key E api_key"
    using assms by (auto simp: verify_api_key_def Let_def)
  have g: "app_get E req = (ErrorDetail 401 40001 MSG_INVALID_KEY, [])"
    if "sr_api_key (query req) = api_key"
    using app_get_dependency_raises [OF dependency_invalid_key, of E req] n that by simp
  have p: "app_post E req body = (ErrorDetail 401 40001 MSG_INVALID_KEY, [])"
    if "SendRequest body = Inr body" and "sr_api_key body = api_key"
    using app_post_body_raises [OF that(1) body_invalid_key, of E req] n that(2) by simp
  show ?thesis
    using validate_invalid_key [OF n] g p by (simp add: ERRCODE_INVALID_API_KEY_def)
qed

lemma test_invalid_key:
  "ascii ''invalid_key'' = [] \<or> ascii ''invalid_key'' \<notin> set (api_keys_list test_env)"
  by (simp add: api_keys_list_def env_defs ascii_def)

lemma test_invalid_key_request:
  "sr_api_key (query bogus_channel_invalid_key_request) = ascii ''invalid_key''"
  by (simp add: bogus_channel_invalid_key_request_def test_request_def test_fields_def)

lemma test_invalid_key_body:
  "SendRequest (test_fields\<lparr>sr_api_key := ascii ''invalid_key''\<rparr>)
     = Inr (test_fields\<lparr>sr_api_key := ascii ''invalid_key''\<rparr>)
   \<and> sr_api_key (test_fields\<lparr>sr_api_key := ascii ''invalid_key''\<rparr>) = ascii ''invalid_key''"
  by (simp add: SendRequest_def test_fields_def ascii_def)

theorem invalid_key_rejected_witness:
  "validate_api_key_with_signature test_env (ascii ''invalid_key'') (Some 1700000000)
     (ascii ''payload'') (Some (ascii ''signature'')) = Inr (False, MSG_INVALID_KEY)
   \<and> app_get test_env bogus_channel_invalid_key_request
       = (ErrorDetail 401 40001 MSG_INVALID_KEY, [])
   \<and> app_post test_env (test_request test_fields)
         (test_fields\<lparr>sr_api_key := ascii ''invalid_key''\<rparr>)
       = (ErrorDetail 401 40001 MSG_INVALID_KEY, [])"
proof -
  note t = invalid_key_rejected [OF test_invalid_key]
  note a = t [THEN conjunct1]
  note b = t [THEN conjunct2, THEN conjunct1, rule_format, OF test_invalid_key_request]
  note c = t [THEN conjunct2, THEN conjunct2, THEN conjunct1, rule_format,
      OF test_invalid_key_body]
  show ?thesis
    by (simp only: a b c simp_thms)
qed

lemma dependency_timestamp_required:
  assumes "verify_api_key E (sr_api_key (query req))"
    and "sr_signature (query req) = Some sg" and "sg \<noteq> []"
    and "sr_timestamp (query req) = None"
  shows "verify_api_key_dependency E req
           = Inl (HTTPException 401 40001 MSG_TIMESTAMP_REQUIRED)"
  using assms
  by (simp add: verify_api_key_dependency_def validate_api_key_with_signature_def Let_def
      auth_errcode_timestamp_required absent_def)

lemma body_timestamp_required:
  assumes "verify_api_key E (sr_api_key f)"
    and "sr_signature f = Some sg" and "sg \<noteq> []" and "sr_timestamp f = None"
  shows "verify_api_key_from_body E f = Inl (HTTPException 401 40001 MSG_TIMESTAMP_REQUIRED)"
  using assms
  by (simp add: verify_api_key_from_body_def validate_api_key_with_signature_def Let_def
      auth_errcode_timestamp_required absent_def)

lemma timestamp_named: "sublist TIMESTAMP_WORD MSG_TIMESTAMP_REQUIRED"
  by (simp add: MSG_TIMESTAMP_REQUIRED_def TIMESTAMP_WORD_def sublist_code)

lemma test_valid_key: "verify_api_key test_env (ascii ''test_api_key_12345'')"
  by (simp add: verify_api_key_def api_keys_list_def env_defs ascii_def)

text \<open>
  C4. A request with a valid key and a signature but no timestamp is rejected before
  any vendor call with status 401 and a text that mentions the timestamp. The code of
  the answer is 40001, the code of an invalid key, not 40003: the text "the timestamp
  parameter is required when the signature is verified" holds neither "signature
  verification failed" nor "timestamp expired", the two texts \<open>auth_errcode\<close> looks for.
  The GET and the POST endpoint answer alike.
\<close>

theorem missing_timestamp_answered_40001:
  "verify_api_key test_env (sr_api_key (query signed_request_without_timestamp))
   \<and> sr_signature (query signed_request_without_timestamp) = Some (ascii ''test_signature'')
   \<and> sr_timestamp (query signed_request_without_timestamp) = None
   \<and> app_get test_env signed_request_without_timestamp
       = (ErrorDetail 401 40001 MSG_TIMESTAMP_REQUIRED, [])
   \<and> app_post test_env signed_request_without_timestamp
         (query signed_request_without_timestamp)
       = (ErrorDetail 401 40001 MSG_TIMESTAMP_REQUIRED, [])
   \<and> sublist TIMESTAMP_WORD MSG_TIMESTAMP_REQUIRED
   \<and> ERRCODE_INVALID_API_KEY = 40001 \<and> ERRCODE_TIMESTAMP_EXPIRED = 40003"
proof -
  have k: "verify_api_key test_env (sr_api_key (query signed_request_without_timestamp))"
    using test_valid_key
    by (simp add: signed_request_without_timestamp_def test_request_def test_fields_def)
  have s: "sr_signature (query signed_request_without_timestamp)
             = Some (ascii ''test_signature'')"
    by (simp add: signed_request_without_timestamp_def test_request_def test_fields_def)
  have n: "ascii ''test_signature'' \<noteq> []"
    by (simp add: ascii_def)
  have t: "sr_timestamp (query signed_request_without_timestamp) = None"
    by (simp add: signed_request_without_timestamp_def test_request_def test_fields_def)
  have v: "SendRequest (query signed_request_without_timestamp)
             = Inr (query signed_request_without_timestamp)"
    by (simp add: SendRequest_def signed_request_without_timestamp_def test_request_def
        test_fields_def ascii_def)
  have g: "app_get test_env signed_request_without_timestamp
          = (ErrorDetail 401 40001 MSG_TIMESTAMP_REQUIRED, [])"
    using app_get_dependency_raises [OF dependency_timestamp_required [OF k s n t]] by simp
  have p: "app_post test_env signed_request_without_timestamp
             (query signed_request_without_timestamp)
          = (ErrorDetail 401 40001 MSG_TIMESTAMP_REQUIRED, [])"
    using app_post_body_raises [OF v body_timestamp_required [OF k s n t]] by simp
  show ?thesis
    using k s t g p timestamp_named
    by (simp add: ERRCODE_INVALID_API_KEY_def ERRCODE_TIMESTAMP_EXPIRED_def)
qed

text \<open>
  The validation of the key and the signature never raises, and the dependency either
  returns the key or raises \<open>HTTPException\<close> with status 401 and one of the three codes
  of authentication.
\<close>

lemma validate_returns:
  "\<exists>ok msg. validate_api_key_with_signature E api_key timestamp payload signature
              = Inr (ok, msg)"
  by (auto simp: validate_api_key_with_signature_def verify_signature_eq
      split: option.splits)

lemma auth_errcode_cases: "auth_errcode msg \<in> {40001, 40002, 40003}"
  by (simp add: auth_errcode_def ERRCODE_INVALID_API_KEY_def ERRCODE_INVALID_SIGNATURE_def
      ERRCODE_TIMESTAMP_EXPIRED_def)

lemma dependency_raises_401:
  assumes "verify_api_key_dependency E req = Inl e"
  shows "\<exists>c m. c \<in> {40001, 40002, 40003} \<and> e = HTTPException 401 c m"
proof -
  let ?payload = "if absent (sr_signature (query req)) then []
                  else query_payload (query_params req)"
  obtain ok msg where v:
    "validate_api_key_with_signature E (sr_api_key (query req)) (sr_timestamp (query req))
       ?payload (sr_signature (query req)) = Inr (ok, msg)"
    using validate_returns by blast
  have "e = HTTPException 401 (auth_errcode msg) msg"
    using assms v by (simp add: verify_api_key_dependency_def Let_def split: if_splits)
  then show ?thesis
    using auth_errcode_cases [of msg] by blast
qed

text \<open>
  C7. A GET request with an unknown channel never reaches a vendor. (A request is what
  the framework hands to the endpoint: the request that lacks a required parameter or
  has a malformed one is answered 422 before.) It is answered 400 with code 40000 when
  the key validation of the dependency has passed; the validation runs first, and when
  it fails the request is answered 401 with the code of the validation, 40001, 40002 or
  40003, as the request with an invalid key and the channel \<open>bogus\<close> is.
\<close>

theorem unknown_channel_rejected:
  "sr_channel (query req) \<notin> {ascii ''wechat'', ascii ''workwechat''} \<longrightarrow>
     snd (app_get E req) = []
     \<and> (\<forall>k. verify_api_key_dependency E req = Inr k \<longrightarrow>
          app_get E req
            = (ErrorDetail 400 40000
                 (MSG_INVALID_CHANNEL @ sr_channel (query req) @ MSG_MUST_BE_CHANNEL), []))
     \<and> (\<forall>e. verify_api_key_dependency E req = Inl e \<longrightarrow>
          (\<exists>c m. c \<in> {40001, 40002, 40003} \<and> e = HTTPException 401 c m
                 \<and> app_get E req = (ErrorDetail 401 c m, [])))"
proof (intro impI conjI allI)
  assume c: "sr_channel (query req) \<notin> {ascii ''wechat'', ascii ''workwechat''}"
  show "snd (app_get E req) = []"
    using c
    by (auto simp: app_get_def send_message_get_def parse_send_request_from_query_def Let_def
        split: sum.splits)
  show "app_get E req
          = (ErrorDetail 400 40000
               (MSG_INVALID_CHANNEL @ sr_channel (query req) @ MSG_MUST_BE_CHANNEL), [])"
    if "verify_api_key_dependency E req = Inr k" for k
    using c that
    by (simp add: app_get_def send_message_get_def parse_send_request_from_query_def Let_def)
  show "\<exists>c m. c \<in> {40001, 40002, 40003} \<and> e = HTTPException 401 c m
              \<and> app_get E req = (ErrorDetail 401 c m, [])"
    if d: "verify_api_key_dependency E req = Inl e" for e
  proof -
    obtain c m where e: "c \<in> {40001, 40002, 40003}" "e = HTTPException 401 c m"
      using dependency_raises_401 [OF d] by blast
    have "app_get E req = (ErrorDetail 401 c m, [])"
      using app_get_dependency_raises [OF d] e(2) by simp
    then show ?thesis
      using e by blast
  qed
qed

lemma test_bogus_channel:
  "sr_channel (query bogus_channel_request) \<notin> {ascii ''wechat'', ascii ''workwechat''}"
  by (simp add: bogus_channel_request_def test_request_def test_fields_def ascii_def)

lemma test_bogus_dependency:
  "verify_api_key_dependency test_env bogus_channel_request = Inr (ascii ''test_api_key_12345'')"
  using test_valid_key
  by (simp add: verify_api_key_dependency_def validate_api_key_with_signature_def Let_def
      bogus_channel_request_def test_request_def test_fields_def absent_def)

lemma test_bogus_expired_channel:
  "sr_channel (query bogus_channel_expired_request) \<notin> {ascii ''wechat'', ascii ''workwechat''}"
  by (simp add: bogus_channel_expired_request_def test_request_def test_fields_def ascii_def)

lemma test_bogus_expired_dependency:
  "verify_api_key_dependency test_env bogus_channel_expired_request
     = Inl (HTTPException 401 40003 MSG_TIMESTAMP_EXPIRED)"
proof -
  have "\<not> verify_timestamp test_env 0 TIMESTAMP_VALIDITY_WINDOW"
    by (simp add: verify_timestamp_def test_env_def TIMESTAMP_VALIDITY_WINDOW_def)
  moreover have "ascii ''test_signature'' \<noteq> []"
    by (simp add: ascii_def)
  ultimately show ?thesis
    using test_valid_key
    by (simp add: verify_api_key_dependency_def validate_api_key_with_signature_def Let_def
        bogus_channel_expired_request_def test_request_def test_fields_def
        auth_errcode_timestamp_expired)
qed

theorem unknown_channel_rejected_witness:
  "app_get test_env bogus_channel_request
     = (ErrorDetail 400 40000 (MSG_INVALID_CHANNEL @ ascii ''bogus'' @ MSG_MUST_BE_CHANNEL), [])
   \<and> app_get test_env bogus_channel_expired_request
     = (ErrorDetail 401 40003 MSG_TIMESTAMP_EXPIRED, [])"
proof -
  note t = unknown_channel_rejected [rule_format, OF test_bogus_channel]
  note b = t [THEN conjunct2, THEN conjunct1, rule_format, OF test_bogus_dependency]
  have c: "sr_channel (query bogus_channel_request) = ascii ''bogus''"
    by (simp add: bogus_channel_request_def test_request_def test_fields_def)
  note u = unknown_channel_rejected [rule_format, OF test_bogus_expired_channel]
  note d = u [THEN conjunct2, THEN conjunct2, rule_format, OF test_bogus_expired_dependency]
  have e: "app_get test_env bogus_channel_expired_request
             = (ErrorDetail 401 40003 MSG_TIMESTAMP_EXPIRED, [])"
    using d by auto
  show ?thesis
    using b e by (simp only: c simp_thms)
qed

theorem unknown_channel_invalid_key_counterexample:
  "sr_channel (query bogus_channel_invalid_key_request)
     \<notin> {ascii ''wechat'', ascii ''workwechat''}
   \<and> app_get test_env bogus_channel_invalid_key_request
       = (ErrorDetail 401 40001 MSG_INVALID_KEY, [])"
proof -
  have n: "\<not> verify_api_key test_env (sr_api_key (query bogus_channel_invalid_key_request))"
    by (simp add: verify_api_key_def api_keys_list_def env_defs ascii_def
        bogus_channel_invalid_key_request_def test_request_def test_fields_def)
  have c: "sr_channel (query bogus_channel_invalid_key_request)
             \<notin> {ascii ''wechat'', ascii ''workwechat''}"
    by (simp add: bogus_channel_invalid_key_request_def test_request_def test_fields_def
        ascii_def)
  show ?thesis
    using c app_get_dependency_raises [OF dependency_invalid_key [OF n]] by simp
qed

end
